theory Spec2Isabelle
  imports Main
begin

section \<open>Values decoded from the wire\<close>

text \<open>
  \<^verbatim>\<open>json.loads\<close> turns a frame into a Python value: \<open>None\<close>, a bool, an int, a
  str, a list or a dict with string keys. A dict is kept as the list of its items (its
  keys are distinct, \<^verbatim>\<open>json.loads\<close> keeps one value per key). Numbers with a fraction
  or an exponent (Python floats) are not represented.
\<close>

datatype json =
    JNull
  | JBool bool
  | JInt int
  | JStr string
  | JArr "json list"
  | JObj "(string \<times> json) list"

text \<open>A frame read from the websocket: text that \<^verbatim>\<open>json.loads\<close> accepts, or not.\<close>

datatype frame = Decoded json | Undecodable

text \<open>
  The exceptions the modelled code can raise. \<open>RuntimeError\<close> carries the literal part of
  its message and the value interpolated after it, if any. \<open>HandlerError\<close> is any
  \<^verbatim>\<open>Exception\<close> raised by a user-registered event handler.
\<close>

datatype pyerr =
    JSONDecodeError
  | TypeError
  | KeyError
  | IndexError
  | AttributeError
  | InvalidStateError
  | ConnectionClosed
  | CancelledError
  | HandlerError string
  | RuntimeError string "json option"

text \<open>Python truthiness, as tested by \<^verbatim>\<open>if x\<close>, \<^verbatim>\<open>not x\<close> and \<^verbatim>\<open>x or y\<close>.\<close>

fun truthy :: "json \<Rightarrow> bool" where
  "truthy JNull = False"
| "truthy (JBool b) = b"
| "truthy (JInt n) = (n \<noteq> 0)"
| "truthy (JStr s) = (s \<noteq> [])"
| "truthy (JArr xs) = (xs \<noteq> [])"
| "truthy (JObj kvs) = (kvs \<noteq> [])"

text \<open>\<^verbatim>\<open>k in s\<close> for two strings: \<open>k\<close> occurs in \<open>s\<close> as a contiguous run.\<close>

fun str_contains :: "string \<Rightarrow> string \<Rightarrow> bool" where
  "str_contains k [] = (k = [])"
| "str_contains k (c # cs) = (take (length k) (c # cs) = k \<or> str_contains k cs)"

text \<open>
  \<^verbatim>\<open>k in data\<close> for a string \<open>k\<close>: key membership in a dict, element membership
  in a list, substring test on a str, \<^verbatim>\<open>TypeError\<close> on anything else.
\<close>

fun py_contains :: "string \<Rightarrow> json \<Rightarrow> pyerr + bool" where
  "py_contains k (JObj kvs) = Inr (k \<in> set (map fst kvs))"
| "py_contains k (JArr xs) = Inr (JStr k \<in> set xs)"
| "py_contains k (JStr s) = Inr (str_contains k s)"
| "py_contains k _ = Inl TypeError"

text \<open>
  \<^verbatim>\<open>data[k]\<close> for a string \<open>k\<close>: only a dict can be indexed by a string
  (\<^verbatim>\<open>KeyError\<close> when the key is missing); every other value raises \<^verbatim>\<open>TypeError\<close>.
\<close>

fun py_getitem :: "json \<Rightarrow> string \<Rightarrow> pyerr + json" where
  "py_getitem (JObj kvs) k = (case map_of kvs k of None \<Rightarrow> Inl KeyError | Some v \<Rightarrow> Inr v)"
| "py_getitem _ k = Inl TypeError"

text \<open>\<^verbatim>\<open>data.get(k, default)\<close>: only a dict has the method.\<close>

fun py_get :: "json \<Rightarrow> string \<Rightarrow> json \<Rightarrow> pyerr + json" where
  "py_get (JObj kvs) k d = Inr (case map_of kvs k of None \<Rightarrow> d | Some v \<Rightarrow> v)"
| "py_get _ k d = Inl AttributeError"

text \<open>
  The key of an int-keyed dict that a decoded value addresses: hashing a list or a dict
  raises \<^verbatim>\<open>TypeError\<close>; a bool is the int 1 or 0; a str or \<open>None\<close> equals no int.
\<close>

fun int_key :: "json \<Rightarrow> pyerr + int option" where
  "int_key (JInt n) = Inr (Some n)"
| "int_key (JBool b) = Inr (Some (if b then 1 else 0))"
| "int_key (JStr s) = Inr None"
| "int_key JNull = Inr None"
| "int_key (JArr xs) = Inl TypeError"
| "int_key (JObj kvs) = Inl TypeError"

section \<open>CDPClient\<close>

text \<open>
  The websocket as the client sees it: whether it is still open, and the messages
  written to it so far (each one the dict handed to \<^verbatim>\<open>json.dumps\<close>).
\<close>

record websocket =
  is_open :: bool
  sent :: "json list"

text \<open>
  An \<^verbatim>\<open>asyncio.Future\<close>: pending, done with a result, or cancelled
  (\<^verbatim>\<open>asyncio.wait_for\<close> cancels the future it waits on when the timeout expires).
\<close>

datatype future = Waiting | Resolved json | Cancelled

datatype task = Running | Finished

text \<open>
  The lines printed when \<open>DEBUG\<close> is set: the pause reason, the resume notice, the
  receive loop's error.
\<close>

datatype log_line = LogPaused json | LogResumed | LogLoopError pyerr

text \<open>
  A user-registered handler is called with the event's params and either returns
  (\<open>None\<close>) or raises. It is taken not to touch the client's fields itself.
\<close>

type_synonym handler = "json \<Rightarrow> pyerr option"

record bp_info =
  bp_url :: string
  bp_lineNumber :: int
  bp_columnNumber :: int
  bp_condition :: "string option"

record cdp_client =
  ws :: "websocket option"
  ws_url :: json
  msg_id :: int
  pending_responses :: "int \<rightharpoonup> future"
  paused_data :: json
  event_handlers :: "string \<rightharpoonup> handler"
  receive_task :: "task option"
  breakpoints :: "json \<rightharpoonup> bp_info"

text \<open>\<^verbatim>\<open>CDPClient.__init__\<close>\<close>

definition init_client :: cdp_client where
  "init_client =
     \<lparr>ws = None, ws_url = JNull, msg_id = 0, pending_responses = Map.empty,
      paused_data = JNull, event_handlers = Map.empty, receive_task = None,
      breakpoints = Map.empty\<rparr>"

text \<open>
  \<^verbatim>\<open>CDPClient.disconnect\<close>: cancel the receive task if there is one and wait for
  it to finish, then close the websocket if there is one. No other field is touched.
\<close>

definition disconnect :: "cdp_client \<Rightarrow> cdp_client" where
  "disconnect c =
     (let c1 = (case receive_task c of
                  None \<Rightarrow> c
                | Some t \<Rightarrow> c\<lparr>receive_task := Some Finished\<rparr>)
      in (case ws c1 of
            None \<Rightarrow> c1
          | Some w \<Rightarrow> c1\<lparr>ws := Some (w\<lparr>is_open := False\<rparr>)\<rparr>))"

text \<open>
  \<^verbatim>\<open>CDPClient._handle_event\<close>, with the value of \<open>DEBUG\<close> as first argument.
  The result is the exception raised (if any), the client afterwards and the lines
  printed.
\<close>

definition handle_event ::
  "bool \<Rightarrow> json \<Rightarrow> cdp_client \<Rightarrow> pyerr option \<times> cdp_client \<times> log_line list" where
  "handle_event dbg event c =
     (case py_getitem event ''method'' of
        Inl e \<Rightarrow> (Some e, c, [])
      | Inr method \<Rightarrow>
          (case py_get event ''params'' (JObj []) of
             Inl e \<Rightarrow> (Some e, c, [])
           | Inr params \<Rightarrow>
               (let (raised, c1, out) =
                      (if method = JStr ''Debugger.paused'' then
                         (let c1 = c\<lparr>paused_data := params\<rparr> in
                          if dbg then
                            (case py_get params ''reason'' (JStr ''unknown'') of
                               Inl e \<Rightarrow> (Some e, c1, [])
                             | Inr reason \<Rightarrow> (None, c1, [LogPaused reason]))
                          else (None, c1, []))
                       else if method = JStr ''Debugger.resumed'' then
                         (None, c\<lparr>paused_data := JNull\<rparr>, if dbg then [LogResumed] else [])
                       else (None, c, []))
                in (case raised of
                      Some e \<Rightarrow> (Some e, c1, out)
                    | None \<Rightarrow>
                        (case method of
                           JStr m \<Rightarrow>
                             (case event_handlers c1 m of
                                None \<Rightarrow> (None, c1, out)
                              | Some h \<Rightarrow> (h params, c1, out))
                         | JArr xs \<Rightarrow> (Some TypeError, c1, out)
                         | JObj kvs \<Rightarrow> (Some TypeError, c1, out)
                         | _ \<Rightarrow> (None, c1, out))))))"

text \<open>
  The body of the \<^verbatim>\<open>async for\<close> in \<^verbatim>\<open>CDPClient._receive_loop\<close>, for one
  message. \<^verbatim>\<open>set_result\<close> raises \<^verbatim>\<open>InvalidStateError\<close> on a future that is
  already done or cancelled.
\<close>

definition loop_body ::
  "bool \<Rightarrow> frame \<Rightarrow> cdp_client \<Rightarrow> pyerr option \<times> cdp_client \<times> log_line list" where
  "loop_body dbg message c =
     (case message of
        Undecodable \<Rightarrow> (Some JSONDecodeError, c, [])
      | Decoded data \<Rightarrow>
          (case py_contains ''id'' data of
             Inl e \<Rightarrow> (Some e, c, [])
           | Inr True \<Rightarrow>
               (case py_getitem data ''id'' of
                  Inl e \<Rightarrow> (Some e, c, [])
                | Inr mid \<Rightarrow>
                    (case int_key mid of
                       Inl e \<Rightarrow> (Some e, c, [])
                     | Inr None \<Rightarrow> (None, c, [])
                     | Inr (Some k) \<Rightarrow>
                         (case pending_responses c k of
                            None \<Rightarrow> (None, c, [])
                          | Some Waiting \<Rightarrow>
                              (None,
                               c\<lparr>pending_responses := (pending_responses c)(k \<mapsto> Resolved data)\<rparr>,
                               [])
                          | Some _ \<Rightarrow> (Some InvalidStateError, c, []))))
           | Inr False \<Rightarrow>
               (case py_contains ''method'' data of
                  Inl e \<Rightarrow> (Some e, c, [])
                | Inr True \<Rightarrow> handle_event dbg data c
                | Inr False \<Rightarrow> (None, c, []))))"

text \<open>
  \<^verbatim>\<open>CDPClient._receive_loop\<close> over the messages that arrive, in order. The
  \<^verbatim>\<open>try\<close> encloses the whole loop: an exception raised by the body leaves the loop,
  the task finishes, and the messages after it are not read. The error is printed when
  \<open>DEBUG\<close> is set and it is not a \<^verbatim>\<open>CancelledError\<close>. At the end of the list the
  loop is still waiting for the next message.
\<close>

fun receive_loop ::
  "bool \<Rightarrow> frame list \<Rightarrow> cdp_client \<Rightarrow> cdp_client \<times> log_line list" where
  "receive_loop dbg [] c = (c, [])"
| "receive_loop dbg (message # rest) c =
     (case loop_body dbg message c of
        (None, c1, out) \<Rightarrow>
          (case receive_loop dbg rest c1 of (c2, out2) \<Rightarrow> (c2, out @ out2))
      | (Some e, c1, out) \<Rightarrow>
          (c1\<lparr>receive_task := Some Finished\<rparr>,
           out @ (if dbg \<and> e \<noteq> CancelledError then [LogLoopError e] else [])))"

text \<open>
  \<^verbatim>\<open>CDPClient.send_command\<close> up to its first suspension in
  \<^verbatim>\<open>asyncio.wait_for\<close>: the connection check, the id allocation, the registration
  of the future and the write. The result is the allocated id, or the exception raised.
  A closed websocket raises in \<^verbatim>\<open>ws.send\<close>, after the registration.
\<close>

definition send_command_issue ::
  "string \<Rightarrow> json option \<Rightarrow> cdp_client \<Rightarrow> (pyerr + int) \<times> cdp_client" where
  "send_command_issue method params c =
     (case ws c of
        None \<Rightarrow> (Inl (RuntimeError ''Not connected to Chrome CDP'' None), c)
      | Some w \<Rightarrow>
          (let i = msg_id c + 1;
               message = JObj [(''id'', JInt i), (''method'', JStr method),
                               (''params'', (case params of
                                               None \<Rightarrow> JObj []
                                             | Some p \<Rightarrow> if truthy p then p else JObj []))];
               c1 = c\<lparr>msg_id := i,
                      pending_responses := (pending_responses c)(i \<mapsto> Waiting)\<rparr>
           in if is_open w
              then (Inr i, c1\<lparr>ws := Some (w\<lparr>sent := sent w @ [message]\<rparr>)\<rparr>)
              else (Inl ConnectionClosed, c1)))"

text \<open>
  The rest of \<^verbatim>\<open>CDPClient.send_command\<close>, when \<^verbatim>\<open>asyncio.wait_for\<close> returns
  or raises for the call that was given id \<open>i\<close>: with the response if the future was
  resolved, with \<^verbatim>\<open>TimeoutError\<close> if the wait timed out (the future is then
  cancelled). While the future is pending the call stays suspended (\<open>None\<close>).
\<close>

definition send_command_resume ::
  "int \<Rightarrow> string \<Rightarrow> cdp_client \<Rightarrow> ((pyerr + json) \<times> cdp_client) option" where
  "send_command_resume i method c =
     (case pending_responses c i of
        Some (Resolved response) \<Rightarrow>
          (let c1 = c\<lparr>pending_responses := (pending_responses c)(i := None)\<rparr>
           in (case py_contains ''error'' response of
                 Inl e \<Rightarrow> Some (Inl e, c1)
               | Inr True \<Rightarrow>
                   (case py_getitem response ''error'' of
                      Inl e \<Rightarrow> Some (Inl e, c1)
                    | Inr err \<Rightarrow> Some (Inl (RuntimeError ''CDP error: '' (Some err)), c1))
               | Inr False \<Rightarrow>
                   (case py_get response ''result'' (JObj []) of
                      Inl e \<Rightarrow> Some (Inl e, c1)
                    | Inr r \<Rightarrow> Some (Inr r, c1))))
      | Some Cancelled \<Rightarrow>
          Some (Inl (RuntimeError ''CDP command timeout: '' (Some (JStr method))),
                c\<lparr>pending_responses := (pending_responses c)(i := None)\<rparr>)
      | _ \<Rightarrow> None)"

text \<open>
  Iterating a decoded value (\<^verbatim>\<open>for target in targets\<close>): the elements of a list, the
  keys of a dict, the characters of a str; anything else is not iterable.
\<close>

fun py_iter :: "json \<Rightarrow> pyerr + json list" where
  "py_iter (JArr xs) = Inr xs"
| "py_iter (JObj kvs) = Inr (map (\<lambda>kv. JStr (fst kv)) kvs)"
| "py_iter (JStr s) = Inr (map (\<lambda>ch. JStr [ch]) s)"
| "py_iter _ = Inl TypeError"

text \<open>The search for the first page target in \<^verbatim>\<open>CDPClient.connect\<close>.\<close>

fun first_page_target :: "json list \<Rightarrow> pyerr + json option" where
  "first_page_target [] = Inr None"
| "first_page_target (target # rest) =
     (case py_get target ''type'' JNull of
        Inl e \<Rightarrow> Inl e
      | Inr ty \<Rightarrow> if ty = JStr ''page'' then Inr (Some target) else first_page_target rest)"

text \<open>
  \<^verbatim>\<open>CDPClient.connect\<close>. What the HTTP request for the target list gave
  (\<open>fetched\<close>) and what \<^verbatim>\<open>websockets.connect\<close> does for a URL (\<open>dial\<close>) are
  inputs. Every exception is re-raised as a \<^verbatim>\<open>RuntimeError\<close>, whose interpolated
  details are left out.
\<close>

definition connect ::
  "(pyerr + json) \<Rightarrow> (json \<Rightarrow> pyerr + websocket) \<Rightarrow> cdp_client \<Rightarrow> pyerr option \<times> cdp_client" where
  "connect fetched dial c =
     (let failed = Some (RuntimeError ''Failed to connect to Chrome CDP'' None)
      in (case fetched of
            Inl e \<Rightarrow> (failed, c)
          | Inr targets \<Rightarrow>
              (case py_iter targets of
                 Inl e \<Rightarrow> (failed, c)
               | Inr ts \<Rightarrow>
                   (case first_page_target ts of
                      Inl e \<Rightarrow> (failed, c)
                    | Inr None \<Rightarrow> (failed, c)
                    | Inr (Some page_target) \<Rightarrow>
                        (case py_getitem page_target ''webSocketDebuggerUrl'' of
                           Inl e \<Rightarrow> (failed, c)
                         | Inr url \<Rightarrow>
                             (let c1 = c\<lparr>ws_url := url\<rparr>
                              in (case dial url of
                                    Inl e \<Rightarrow> (failed, c1)
                                  | Inr w \<Rightarrow>
                                      (None, c1\<lparr>ws := Some w,
                                                 receive_task := Some Running\<rparr>))))))))"

section \<open>CDPConnectionManager\<close>

text \<open>
  \<open>connections\<close> is a Python dict, which keeps insertion order: the list of its items,
  a new key appended at the end.
\<close>

record manager =
  connections :: "(string \<times> cdp_client) list"
  active_connection_id :: "string option"

text \<open>
  What the manager's methods and the tools return: the fixed texts as such, the
  formatted ones by their parts.
\<close>

datatype reply =
    AlreadyExists string
  | Connected string
  | NotFound string
  | Disconnected string
  | Switched string
  | NoConnection "string option"
  | Text string
  | Failure string pyerr
  | BreakpointSet json string int "string option" "(int \<times> json) option"

definition init_manager :: manager where
  "init_manager = \<lparr>connections = [], active_connection_id = None\<rparr>"

text \<open>
  \<^verbatim>\<open>CDPConnectionManager.connect\<close>: the result is the message returned or the
  exception raised, and the manager afterwards.
\<close>

definition manager_connect ::
  "string \<Rightarrow> (pyerr + json) \<Rightarrow> (json \<Rightarrow> pyerr + websocket) \<Rightarrow> manager \<Rightarrow>
     (pyerr + reply) \<times> manager" where
  "manager_connect connection_id fetched dial m =
     (if connection_id \<in> set (map fst (connections m))
      then (Inr (AlreadyExists connection_id), m)
      else (case connect fetched dial init_client of
              (Some e, cdp) \<Rightarrow> (Inl (RuntimeError ''Failed to connect to Chrome'' None), m)
            | (None, cdp) \<Rightarrow>
                (let m1 = m\<lparr>connections := connections m @ [(connection_id, cdp)]\<rparr>;
                     m2 = (if active_connection_id m1 = None
                           then m1\<lparr>active_connection_id := Some connection_id\<rparr>
                           else m1)
                 in (Inr (Connected connection_id), m2))))"

text \<open>
  \<^verbatim>\<open>CDPConnectionManager.disconnect\<close>: the client is disconnected and dropped;
  \<^verbatim>\<open>next(iter(self.connections.keys()), None)\<close> is the first remaining key.
\<close>

definition manager_disconnect :: "string \<Rightarrow> manager \<Rightarrow> reply \<times> manager" where
  "manager_disconnect connection_id m =
     (if connection_id \<notin> set (map fst (connections m))
      then (NotFound connection_id, m)
      else (let m1 = m\<lparr>connections :=
                          filter (\<lambda>kv. fst kv \<noteq> connection_id) (connections m)\<rparr>;
                m2 = (if active_connection_id m1 = Some connection_id
                      then m1\<lparr>active_connection_id :=
                                (case connections m1 of
                                   [] \<Rightarrow> None
                                 | kv # rest \<Rightarrow> Some (fst kv))\<rparr>
                      else m1)
            in (Disconnected connection_id, m2)))"

text \<open>\<^verbatim>\<open>CDPConnectionManager.disconnect_all\<close>\<close>

definition disconnect_all :: "manager \<Rightarrow> manager" where
  "disconnect_all m = m\<lparr>connections := [], active_connection_id := None\<rparr>"

text \<open>
  \<^verbatim>\<open>CDPConnectionManager.get_active\<close>: \<^verbatim>\<open>if self.active_connection_id\<close> is
  false for \<open>None\<close> and for the empty string.
\<close>

definition get_active :: "manager \<Rightarrow> cdp_client option" where
  "get_active m =
     (case active_connection_id m of
        None \<Rightarrow> None
      | Some a \<Rightarrow> if a \<noteq> [] then map_of (connections m) a else None)"

text \<open>\<^verbatim>\<open>CDPConnectionManager.get\<close>\<close>

definition manager_get :: "manager \<Rightarrow> string \<Rightarrow> cdp_client option" where
  "manager_get m connection_id = map_of (connections m) connection_id"

text \<open>\<^verbatim>\<open>CDPConnectionManager.switch_active\<close>\<close>

definition switch_active :: "string \<Rightarrow> manager \<Rightarrow> reply \<times> manager" where
  "switch_active connection_id m =
     (if connection_id \<notin> set (map fst (connections m))
      then (NotFound connection_id, m)
      else (Switched connection_id, m\<lparr>active_connection_id := Some connection_id\<rparr>))"

text \<open>\<^verbatim>\<open>CDPConnectionManager.get_connection\<close>\<close>

definition get_connection :: "manager \<Rightarrow> string option \<Rightarrow> cdp_client option" where
  "get_connection m connection_id =
     (case connection_id of
        None \<Rightarrow> get_active m
      | Some cid \<Rightarrow> manager_get m cid)"

text \<open>
  The tools mutate the client object that \<open>get_connection\<close> handed out, which is the
  object the dict holds. In the model the changed client is written back under the key
  it was read from.
\<close>

definition put_connection :: "manager \<Rightarrow> string option \<Rightarrow> cdp_client \<Rightarrow> manager" where
  "put_connection m connection_id cdp =
     (let key = (case connection_id of None \<Rightarrow> active_connection_id m | Some cid \<Rightarrow> Some cid)
      in m\<lparr>connections :=
             map (\<lambda>kv. if Some (fst kv) = key then (fst kv, cdp) else kv) (connections m)\<rparr>)"

section \<open>Debugger tools\<close>

text \<open>
  A tool either answers at once or is suspended inside \<^verbatim>\<open>send_command\<close>, waiting
  for the response to the request id it was given. The tools below are modelled up to
  that point; \<^verbatim>\<open>ensure_chrome_client\<close> is taken to have succeeded.
\<close>

datatype tool_step = Replied reply | Suspended int

text \<open>
  \<^verbatim>\<open>conn_msg\<close>: the connection id shows in the message only when it is given and
  not empty.
\<close>

definition conn_msg :: "string option \<Rightarrow> string option" where
  "conn_msg connection_id =
     (case connection_id of
        None \<Rightarrow> None
      | Some cid \<Rightarrow> if cid \<noteq> [] then Some cid else None)"

definition debugger_evaluate_on_call_frame ::
  "string \<Rightarrow> string \<Rightarrow> string option \<Rightarrow> manager \<Rightarrow> tool_step \<times> manager" where
  "debugger_evaluate_on_call_frame call_frame_id expression connection_id m =
     (case get_connection m connection_id of
        None \<Rightarrow> (Replied (NoConnection (conn_msg connection_id)), m)
      | Some cdp \<Rightarrow>
          if \<not> truthy (paused_data cdp)
          then (Replied (Text ''Not paused. Cannot evaluate expressions outside of paused context.''), m)
          else (case send_command_issue ''Debugger.evaluateOnCallFrame''
                       (Some (JObj [(''callFrameId'', JStr call_frame_id),
                                    (''expression'', JStr expression)])) cdp of
                  (Inl e, cdp1) \<Rightarrow>
                    (Replied (Failure ''Error evaluating expression: '' e),
                     put_connection m connection_id cdp1)
                | (Inr i, cdp1) \<Rightarrow> (Suspended i, put_connection m connection_id cdp1)))"

definition debugger_step_over :: "string option \<Rightarrow> manager \<Rightarrow> tool_step \<times> manager" where
  "debugger_step_over connection_id m =
     (case get_connection m connection_id of
        None \<Rightarrow> (Replied (NoConnection (conn_msg connection_id)), m)
      | Some cdp \<Rightarrow>
          if \<not> truthy (paused_data cdp)
          then (Replied (Text ''Not paused. Cannot step when execution is not paused.''), m)
          else (case send_command_issue ''Debugger.stepOver'' (Some (JObj [])) cdp of
                  (Inl e, cdp1) \<Rightarrow>
                    (Replied (Failure ''Error stepping over: '' e),
                     put_connection m connection_id cdp1)
                | (Inr i, cdp1) \<Rightarrow> (Suspended i, put_connection m connection_id cdp1)))"

definition debugger_step_into :: "string option \<Rightarrow> manager \<Rightarrow> tool_step \<times> manager" where
  "debugger_step_into connection_id m =
     (case get_connection m connection_id of
        None \<Rightarrow> (Replied (NoConnection (conn_msg connection_id)), m)
      | Some cdp \<Rightarrow>
          if \<not> truthy (paused_data cdp)
          then (Replied (Text ''Not paused. Cannot step when execution is not paused.''), m)
          else (case send_command_issue ''Debugger.stepInto'' (Some (JObj [])) cdp of
                  (Inl e, cdp1) \<Rightarrow>
                    (Replied (Failure ''Error stepping into: '' e),
                     put_connection m connection_id cdp1)
                | (Inr i, cdp1) \<Rightarrow> (Suspended i, put_connection m connection_id cdp1)))"

definition debugger_step_out :: "string option \<Rightarrow> manager \<Rightarrow> tool_step \<times> manager" where
  "debugger_step_out connection_id m =
     (case get_connection m connection_id of
        None \<Rightarrow> (Replied (NoConnection (conn_msg connection_id)), m)
      | Some cdp \<Rightarrow>
          if \<not> truthy (paused_data cdp)
          then (Replied (Text ''Not paused. Cannot step when execution is not paused.''), m)
          else (case send_command_issue ''Debugger.stepOut'' (Some (JObj [])) cdp of
                  (Inl e, cdp1) \<Rightarrow>
                    (Replied (Failure ''Error stepping out: '' e),
                     put_connection m connection_id cdp1)
                | (Inr i, cdp1) \<Rightarrow> (Suspended i, put_connection m connection_id cdp1)))"

definition debugger_resume :: "string option \<Rightarrow> manager \<Rightarrow> tool_step \<times> manager" where
  "debugger_resume connection_id m =
     (case get_connection m connection_id of
        None \<Rightarrow> (Replied (NoConnection (conn_msg connection_id)), m)
      | Some cdp \<Rightarrow>
          if \<not> truthy (paused_data cdp)
          then (Replied (Text ''Not paused. Nothing to resume.''), m)
          else (case send_command_issue ''Debugger.resume'' (Some (JObj [])) cdp of
                  (Inl e, cdp1) \<Rightarrow>
                    (Replied (Failure ''Error resuming: '' e),
                     put_connection m connection_id cdp1)
                | (Inr i, cdp1) \<Rightarrow> (Suspended i, put_connection m connection_id cdp1)))"

subsection \<open>Setting a breakpoint\<close>

text \<open>
  The params dict that \<^verbatim>\<open>debugger_set_breakpoint\<close> builds: the caller's line number
  is 1-indexed, the wire's is 0-indexed. The condition is added when it is given and
  not empty.
\<close>

definition set_breakpoint_params :: "string \<Rightarrow> int \<Rightarrow> int \<Rightarrow> string option \<Rightarrow> json" where
  "set_breakpoint_params url line_number column_number condition =
     JObj ([(''url'', JStr url),
            (''lineNumber'', JInt (line_number - 1)),
            (''columnNumber'', JInt column_number)]
           @ (case condition of
                None \<Rightarrow> []
              | Some cond \<Rightarrow> if cond \<noteq> [] then [(''condition'', JStr cond)] else []))"

text \<open>\<^verbatim>\<open>debugger_set_breakpoint\<close> up to its suspension in \<^verbatim>\<open>send_command\<close>.\<close>

definition debugger_set_breakpoint ::
  "string \<Rightarrow> int \<Rightarrow> int \<Rightarrow> string option \<Rightarrow> string option \<Rightarrow> manager \<Rightarrow>
     tool_step \<times> manager" where
  "debugger_set_breakpoint url line_number column_number condition connection_id m =
     (case get_connection m connection_id of
        None \<Rightarrow> (Replied (NoConnection (conn_msg connection_id)), m)
      | Some cdp \<Rightarrow>
          (case send_command_issue ''Debugger.setBreakpointByUrl''
                  (Some (set_breakpoint_params url line_number column_number condition)) cdp of
             (Inl e, cdp1) \<Rightarrow>
               (Replied (Failure ''Error setting breakpoint: '' e),
                put_connection m connection_id cdp1)
           | (Inr i, cdp1) \<Rightarrow> (Suspended i, put_connection m connection_id cdp1)))"

text \<open>
  The key under which a decoded value is stored in a dict: a list or a dict cannot be
  hashed, \<open>True\<close> and \<open>False\<close> are the keys 1 and 0.
\<close>

fun dict_key :: "json \<Rightarrow> pyerr + json" where
  "dict_key (JArr xs) = Inl TypeError"
| "dict_key (JObj kvs) = Inl TypeError"
| "dict_key (JBool b) = Inr (JInt (if b then 1 else 0))"
| "dict_key v = Inr v"

text \<open>\<^verbatim>\<open>locations[0]\<close>\<close>

fun py_index0 :: "json \<Rightarrow> pyerr + json" where
  "py_index0 (JArr []) = Inl IndexError"
| "py_index0 (JArr (x # xs)) = Inr x"
| "py_index0 (JStr []) = Inl IndexError"
| "py_index0 (JStr (ch # s)) = Inr (JStr [ch])"
| "py_index0 (JObj kvs) = Inl KeyError"
| "py_index0 _ = Inl TypeError"

text \<open>\<^verbatim>\<open>x + 1\<close>: defined on ints (and bools, which are ints).\<close>

fun py_add1 :: "json \<Rightarrow> pyerr + int" where
  "py_add1 (JInt n) = Inr (n + 1)"
| "py_add1 (JBool b) = Inr ((if b then 1 else 0) + 1)"
| "py_add1 _ = Inl TypeError"

text \<open>
  The rest of \<^verbatim>\<open>debugger_set_breakpoint\<close>, once \<^verbatim>\<open>send_command\<close> has returned
  its result or raised (\<open>outcome\<close>), on the client \<open>cdp\<close>. The confirmation is
  \<open>BreakpointSet\<close> with the breakpoint id, the URL, the line as the caller gave it, the
  condition shown, and the actual location (line, column) when the remote sent one.
\<close>

definition debugger_set_breakpoint_result ::
  "string \<Rightarrow> int \<Rightarrow> int \<Rightarrow> string option \<Rightarrow> pyerr + json \<Rightarrow> cdp_client \<Rightarrow>
     reply \<times> cdp_client" where
  "debugger_set_breakpoint_result url line_number column_number condition outcome cdp =
     (let failure = Failure ''Error setting breakpoint: ''
      in (case outcome of
            Inl e \<Rightarrow> (failure e, cdp)
          | Inr result \<Rightarrow>
              (case py_get result ''breakpointId'' JNull of
                 Inl e \<Rightarrow> (failure e, cdp)
               | Inr breakpoint_id \<Rightarrow>
                   (case py_get result ''locations'' (JArr []) of
                      Inl e \<Rightarrow> (failure e, cdp)
                    | Inr locations \<Rightarrow>
                        (case dict_key breakpoint_id of
                           Inl e \<Rightarrow> (failure e, cdp)
                         | Inr key \<Rightarrow>
                             (let cdp1 = cdp\<lparr>breakpoints := (breakpoints cdp)(key \<mapsto>
                                           \<lparr>bp_url = url, bp_lineNumber = line_number,
                                            bp_columnNumber = column_number,
                                            bp_condition = condition\<rparr>)\<rparr>;
                                  shown = (case condition of
                                             None \<Rightarrow> None
                                           | Some cond \<Rightarrow> if cond \<noteq> [] then Some cond else None)
                              in if truthy locations then
                                   (case py_index0 locations of
                                      Inl e \<Rightarrow> (failure e, cdp1)
                                    | Inr loc \<Rightarrow>
                                        (case py_get loc ''lineNumber'' (JInt 0) of
                                           Inl e \<Rightarrow> (failure e, cdp1)
                                         | Inr ln \<Rightarrow>
                                             (case py_add1 ln of
                                                Inl e \<Rightarrow> (failure e, cdp1)
                                              | Inr actual_line \<Rightarrow>
                                                  (case py_get loc ''columnNumber'' (JInt 0) of
                                                     Inl e \<Rightarrow> (failure e, cdp1)
                                                   | Inr col \<Rightarrow>
                                                       (BreakpointSet breakpoint_id url line_number
                                                          shown (Some (actual_line, col)),
                                                        cdp1)))))
                                 else (BreakpointSet breakpoint_id url line_number shown None,
                                       cdp1)))))))"

section \<open>Calls and the receive loop on one event loop\<close>

text \<open>
  asyncio runs one coroutine at a time and switches only at an \<^verbatim>\<open>await\<close>. A run of
  one client is therefore a sequence of these steps, in any order:
  a caller enters \<^verbatim>\<open>send_command\<close> and runs up to \<^verbatim>\<open>wait_for\<close>; the receive
  loop reads the next message and runs its body; the timeout of a waiting call expires
  (\<^verbatim>\<open>wait_for\<close> cancels the future); a call whose future is no longer pending runs
  on from \<^verbatim>\<open>wait_for\<close> to its end.
\<close>

datatype action =
    Call string "json option"
  | Arrive frame
  | Expire int
  | Resume int

datatype outcome = Returned json | Raised pyerr

text \<open>
  \<open>waiting\<close> holds the locals \<open>msg_id\<close> and \<open>method\<close> of every suspended call,
  \<open>finished\<close> what each completed call returned or raised, under its \<open>msg_id\<close>.
\<close>

record world =
  client :: cdp_client
  waiting :: "int \<rightharpoonup> string"
  finished :: "int \<rightharpoonup> outcome"
  printed :: "log_line list"

definition start :: "cdp_client \<Rightarrow> world" where
  "start c = \<lparr>client = c, waiting = Map.empty, finished = Map.empty, printed = []\<rparr>"

fun step :: "bool \<Rightarrow> world \<Rightarrow> action \<Rightarrow> world" where
  "step dbg w (Call method params) =
     (case send_command_issue method params (client w) of
        (Inl e, c) \<Rightarrow> w\<lparr>client := c\<rparr>
      | (Inr i, c) \<Rightarrow> w\<lparr>client := c, waiting := (waiting w)(i \<mapsto> method)\<rparr>)"
| "step dbg w (Arrive message) =
     (if receive_task (client w) = Some Running
      then (case receive_loop dbg [message] (client w) of
              (c, out) \<Rightarrow> w\<lparr>client := c, printed := printed w @ out\<rparr>)
      else w)"
| "step dbg w (Expire i) =
     (if waiting w i \<noteq> None \<and> pending_responses (client w) i = Some Waiting
      then w\<lparr>client := (client w)\<lparr>pending_responses :=
                                     (pending_responses (client w))(i \<mapsto> Cancelled)\<rparr>\<rparr>
      else w)"
| "step dbg w (Resume i) =
     (case waiting w i of
        None \<Rightarrow> w
      | Some method \<Rightarrow>
          (case send_command_resume i method (client w) of
             None \<Rightarrow> w
           | Some (r, c) \<Rightarrow>
               w\<lparr>client := c,
                 waiting := (waiting w)(i := None),
                 finished := (finished w)(i \<mapsto> (case r of Inl e \<Rightarrow> Raised e
                                                        | Inr v \<Rightarrow> Returned v))\<rparr>))"

definition run :: "bool \<Rightarrow> action list \<Rightarrow> world \<Rightarrow> world" where
  "run dbg acts w = foldl (step dbg) w acts"

section \<open>Sessions used as concrete inputs\<close>

text \<open>
  A client connected to one page target over an open websocket, and the same client
  after one \<^verbatim>\<open>send_command\<close> has been issued on it (request id 1 is pending).
\<close>

definition page_client :: cdp_client where
  "page_client =
     snd (connect (Inr (JArr [JObj [(''type'', JStr ''page''),
                                    (''webSocketDebuggerUrl'', JStr ''ws://localhost:9222/1'')]]))
            (\<lambda>url. Inr \<lparr>is_open = True, sent = []\<rparr>) init_client)"

definition one_pending :: cdp_client where
  "one_pending = snd (send_command_issue ''Debugger.pause'' (Some (JObj [])) page_client)"

text \<open>
  The same client with a handler for \<^verbatim>\<open>Page.loadEventFired\<close> that raises when the
  event has no params and returns otherwise.
\<close>

definition picky_client :: cdp_client where
  "picky_client =
     one_pending\<lparr>event_handlers :=
       [''Page.loadEventFired'' \<mapsto>
          (\<lambda>params. if params = JObj [] then Some (HandlerError ''no params'') else None)]\<rparr>"

text \<open>The connected client after a \<^verbatim>\<open>Debugger.paused\<close> event has been received.\<close>

definition paused_client :: cdp_client where
  "paused_client =
     fst (receive_loop False
            [Decoded (JObj [(''method'', JStr ''Debugger.paused''),
                            (''params'', JObj [(''reason'', JStr ''other''),
                                               (''callFrames'', JArr [])])])]
            page_client)"

text \<open>
  A manager with the one connection \<open>default\<close>, the same with that session paused, and
  a manager on which \<open>a\<close> and then \<open>b\<close> were connected.
\<close>

definition page_manager :: manager where
  "page_manager =
     snd (manager_connect ''default''
            (Inr (JArr [JObj [(''type'', JStr ''page''),
                              (''webSocketDebuggerUrl'', JStr ''ws://localhost:9222/1'')]]))
            (\<lambda>url. Inr \<lparr>is_open = True, sent = []\<rparr>) init_manager)"

definition paused_manager :: manager where
  "paused_manager = put_connection page_manager None paused_client"

definition two_sessions :: manager where
  "two_sessions =
     snd (manager_connect ''b''
            (Inr (JArr [JObj [(''type'', JStr ''page''),
                              (''webSocketDebuggerUrl'', JStr ''ws://localhost:9333/1'')]]))
            (\<lambda>url. Inr \<lparr>is_open = True, sent = []\<rparr>)
            (snd (manager_connect ''a''
                    (Inr (JArr [JObj [(''type'', JStr ''page''),
                                      (''webSocketDebuggerUrl'', JStr ''ws://localhost:9222/1'')]]))
                    (\<lambda>url. Inr \<lparr>is_open = True, sent = []\<rparr>) init_manager)))"

text \<open>
  Two calls whose responses arrive in the opposite order, and the state in which two
  calls are waiting.
\<close>

definition out_of_order :: "action list" where
  "out_of_order =
     [Call ''Debugger.enable'' None,
      Call ''Runtime.evaluate'' (Some (JObj [(''expression'', JStr ''1+1'')])),
      Arrive (Decoded (JObj [(''id'', JInt 2), (''result'', JObj [(''value'', JInt 2)])])),
      Arrive (Decoded (JObj [(''id'', JInt 1), (''result'', JObj [])])),
      Resume 2,
      Resume 1]"

definition two_waiting :: world where
  "two_waiting =
     run False [Call ''Debugger.enable'' None, Call ''Debugger.pause'' None] (start page_client)"

section \<open>Observations used in the statements\<close>

text \<open>
  The messages written so far to the websocket of the connection that \<open>connection_id\<close>
  resolves to.
\<close>

definition wire :: "manager \<Rightarrow> string option \<Rightarrow> json list" where
  "wire m connection_id =
     (case get_connection m connection_id of
        None \<Rightarrow> []
      | Some cdp \<Rightarrow> (case ws cdp of None \<Rightarrow> [] | Some w \<Rightarrow> sent w))"

text \<open>The manager's invariant: the active id, when set, is a key of \<open>connections\<close>.\<close>

definition active_valid :: "manager \<Rightarrow> bool" where
  "active_valid m =
     (case active_connection_id m of
        None \<Rightarrow> True
      | Some a \<Rightarrow> a \<in> set (map fst (connections m)))"

section \<open>The concrete sessions, evaluated\<close>

lemma page_client_eq:
  "page_client =
     \<lparr>ws = Some \<lparr>is_open = True, sent = []\<rparr>, ws_url = JStr ''ws://localhost:9222/1'',
      msg_id = 0, pending_responses = Map.empty, paused_data = JNull,
      event_handlers = Map.empty, receive_task = Some Running, breakpoints = Map.empty\<rparr>"
  by (simp add: page_client_def connect_def init_client_def)

lemma one_pending_eq:
  "one_pending =
     \<lparr>ws = Some \<lparr>is_open = True,
                  sent = [JObj [(''id'', JInt 1), (''method'', JStr ''Debugger.pause''),
                                (''params'', JObj [])]]\<rparr>,
      ws_url = JStr ''ws://localhost:9222/1'',
      msg_id = 1, pending_responses = [1 \<mapsto> Waiting], paused_data = JNull,
      event_handlers = Map.empty, receive_task = Some Running, breakpoints = Map.empty\<rparr>"
  by (simp add: one_pending_def page_client_eq send_command_issue_def)

lemma picky_client_eq:
  "picky_client =
     \<lparr>ws = Some \<lparr>is_open = True,
                  sent = [JObj [(''id'', JInt 1), (''method'', JStr ''Debugger.pause''),
                                (''params'', JObj [])]]\<rparr>,
      ws_url = JStr ''ws://localhost:9222/1'',
      msg_id = 1, pending_responses = [1 \<mapsto> Waiting], paused_data = JNull,
      event_handlers = [''Page.loadEventFired'' \<mapsto>
          (\<lambda>params. if params = JObj [] then Some (HandlerError ''no params'') else None)],
      receive_task = Some Running, breakpoints = Map.empty\<rparr>"
  by (simp add: picky_client_def one_pending_eq)

lemma paused_client_eq:
  "paused_client =
     page_client\<lparr>paused_data := JObj [(''reason'', JStr ''other''), (''callFrames'', JArr [])]\<rparr>"
  by (simp add: paused_client_def loop_body_def handle_event_def page_client_eq)

lemma connect_page:
  "connect (Inr (JArr [JObj [(''type'', JStr ''page''), (''webSocketDebuggerUrl'', JStr u)]]))
     (\<lambda>url. Inr \<lparr>is_open = True, sent = []\<rparr>) init_client =
   (None, init_client\<lparr>ws_url := JStr u, ws := Some \<lparr>is_open = True, sent = []\<rparr>,
                      receive_task := Some Running\<rparr>)"
  by (simp add: connect_def)

lemma page_manager_eq:
  "page_manager = \<lparr>connections = [(''default'', page_client)],
                   active_connection_id = Some ''default''\<rparr>"
  by (simp add: page_manager_def manager_connect_def init_manager_def connect_page
        page_client_def)

lemma paused_manager_eq:
  "paused_manager = \<lparr>connections = [(''default'', paused_client)],
                     active_connection_id = Some ''default''\<rparr>"
  by (simp add: paused_manager_def page_manager_eq put_connection_def)

lemma two_sessions_eq:
  "two_sessions =
     \<lparr>connections =
        [(''a'', init_client\<lparr>ws_url := JStr ''ws://localhost:9222/1'',
                            ws := Some \<lparr>is_open = True, sent = []\<rparr>,
                            receive_task := Some Running\<rparr>),
         (''b'', init_client\<lparr>ws_url := JStr ''ws://localhost:9333/1'',
                            ws := Some \<lparr>is_open = True, sent = []\<rparr>,
                            receive_task := Some Running\<rparr>)],
      active_connection_id = Some ''a''\<rparr>"
  by (simp add: two_sessions_def manager_connect_def init_manager_def connect_page)

lemma two_waiting_eq:
  "two_waiting =
     \<lparr>client = \<lparr>ws = Some \<lparr>is_open = True,
                  sent = [JObj [(''id'', JInt 1), (''method'', JStr ''Debugger.enable''),
                                (''params'', JObj [])],
                          JObj [(''id'', JInt 2), (''method'', JStr ''Debugger.pause''),
                                (''params'', JObj [])]]\<rparr>,
        ws_url = JStr ''ws://localhost:9222/1'',
        msg_id = 2, pending_responses = [1 \<mapsto> Waiting, 2 \<mapsto> Waiting], paused_data = JNull,
        event_handlers = Map.empty, receive_task = Some Running, breakpoints = Map.empty\<rparr>,
      waiting = [1 \<mapsto> ''Debugger.enable'', 2 \<mapsto> ''Debugger.pause''],
      finished = Map.empty, printed = []\<rparr>"
  by (simp add: two_waiting_def run_def start_def page_client_eq send_command_issue_def)

lemma out_of_order_finished:
  "finished (run False out_of_order (start page_client)) =
     [2 \<mapsto> Returned (JObj [(''value'', JInt 2)]), 1 \<mapsto> Returned (JObj [])]"
  by (simp add: out_of_order_def run_def start_def page_client_eq send_command_issue_def
        loop_body_def send_command_resume_def)

section \<open>Sending without a connection\<close>

text \<open>
  C10: \<^verbatim>\<open>send_command\<close> on a client whose \<open>ws\<close> is \<open>None\<close> raises
  "Not connected to Chrome CDP" and leaves the whole client as it was: \<open>msg_id\<close> is not
  incremented, nothing is added to \<open>pending_responses\<close>, and there is no websocket that
  could have been written to.
\<close>

theorem send_command_not_connected:
  "ws c = None \<Longrightarrow>
     send_command_issue method params c =
       (Inl (RuntimeError ''Not connected to Chrome CDP'' None), c)"
  by (simp add: send_command_issue_def)

theorem send_command_not_connected_witness:
  "ws init_client = None \<and>
   send_command_issue ''Debugger.enable'' (Some (JObj [])) init_client =
     (Inl (RuntimeError ''Not connected to Chrome CDP'' None), init_client) \<and>
   msg_id init_client = 0 \<and> pending_responses init_client = Map.empty"
  using send_command_not_connected [of init_client "''Debugger.enable''" "Some (JObj [])"]
  by (simp add: init_client_def)

section \<open>Closing a session\<close>

text \<open>
  C2, as the code has it: \<^verbatim>\<open>CDPClient.disconnect\<close> is idempotent, finishes the
  receive task and closes the websocket; it leaves \<open>pending_responses\<close> exactly as it
  was, so a request that is still pending is not resolved at close time.
\<close>

theorem disconnect_effect:
  "disconnect (disconnect c) = disconnect c \<and>
   receive_task (disconnect c) = map_option (\<lambda>t. Finished) (receive_task c) \<and>
   ws (disconnect c) = map_option (\<lambda>w. w\<lparr>is_open := False\<rparr>) (ws c) \<and>
   pending_responses (disconnect c) = pending_responses c"
  by (simp add: disconnect_def split: option.splits)

text \<open>
  The request with id 1 is pending before the disconnect and still pending after it: its
  future was given neither a result nor an error, and the call cannot run on.
\<close>

theorem disconnect_leaves_pending_counterexample:
  "pending_responses one_pending 1 = Some Waiting \<and>
   pending_responses (disconnect one_pending) 1 = Some Waiting \<and>
   send_command_resume 1 ''Debugger.pause'' (disconnect one_pending) = None"
  by (simp add: one_pending_eq disconnect_def send_command_resume_def)

section \<open>Malformed frames\<close>




section \<open>Events\<close>

lemma handle_event_raising:
  assumes "map_of kvs ''method'' = Some (JStr m)" "event_handlers c m = Some h"
    "h (case map_of kvs ''params'' of None \<Rightarrow> JObj [] | Some p \<Rightarrow> p) = Some e"
  shows "\<exists>e' out. handle_event dbg (JObj kvs) c =
      (Some e',
       (let params = (case map_of kvs ''params'' of None \<Rightarrow> JObj [] | Some p \<Rightarrow> p)
        in if m = ''Debugger.paused'' then c\<lparr>paused_data := params\<rparr>
           else if m = ''Debugger.resumed'' then c\<lparr>paused_data := JNull\<rparr> else c), out)"
  using assms
  by (cases "py_get (case map_of kvs ''params'' of None \<Rightarrow> JObj [] | Some p \<Rightarrow> p)
               ''reason'' (JStr ''unknown'')")
     (auto simp: handle_event_def Let_def)

lemma handle_event_returning:
  assumes "map_of kvs ''method'' = Some (JStr m)"
    "case event_handlers c m of None \<Rightarrow> True
     | Some h \<Rightarrow> h (case map_of kvs ''params'' of None \<Rightarrow> JObj [] | Some p \<Rightarrow> p) = None"
    "dbg \<and> m = ''Debugger.paused'' \<longrightarrow>
       (\<exists>ps. (case map_of kvs ''params'' of None \<Rightarrow> JObj [] | Some p \<Rightarrow> p) = JObj ps)"
  shows "\<exists>out. handle_event dbg (JObj kvs) c =
      (None,
       (let params = (case map_of kvs ''params'' of None \<Rightarrow> JObj [] | Some p \<Rightarrow> p)
        in if m = ''Debugger.paused'' then c\<lparr>paused_data := params\<rparr>
           else if m = ''Debugger.resumed'' then c\<lparr>paused_data := JNull\<rparr> else c), out)"
  using assms
  by (auto simp: handle_event_def Let_def split: option.splits)

lemma loop_body_event:
  assumes "''id'' \<notin> set (map fst kvs)" "map_of kvs ''method'' = Some v"
  shows "loop_body dbg (Decoded (JObj kvs)) c = handle_event dbg (JObj kvs) c"
proof -
  from assms(2) have "''method'' \<in> set (map fst kvs)"
    by (metis map_of_eq_None_iff option.distinct(1) set_map)
  with assms(1) show ?thesis by (simp add: loop_body_def)
qed

text \<open>
  C4, as the code has it: the handler is awaited inside the loop body with nothing
  around it. For an event whose method has a registered handler, the built-in pause
  tracking is applied first; if the handler then raises, the exception leaves the loop,
  the task is finished and the remaining messages are not read. If the handler returns
  (and the \<open>DEBUG\<close> print of the pause reason did not fail), the loop goes on with the
  next message.
\<close>

theorem handler_exception_ends_loop:
  assumes "''id'' \<notin> set (map fst kvs)" and "map_of kvs ''method'' = Some (JStr m)"
    and "event_handlers c m = Some h"
  shows
    "(let params = (case map_of kvs ''params'' of None \<Rightarrow> JObj [] | Some p \<Rightarrow> p);
          c1 = (if m = ''Debugger.paused'' then c\<lparr>paused_data := params\<rparr>
                else if m = ''Debugger.resumed'' then c\<lparr>paused_data := JNull\<rparr> else c)
      in (h params \<noteq> None \<longrightarrow>
            fst (receive_loop dbg (Decoded (JObj kvs) # rest) c) =
              c1\<lparr>receive_task := Some Finished\<rparr>) \<and>
         (h params = None \<and> (dbg \<and> m = ''Debugger.paused'' \<longrightarrow> (\<exists>ps. params = JObj ps)) \<longrightarrow>
            fst (receive_loop dbg (Decoded (JObj kvs) # rest) c) =
              fst (receive_loop dbg rest c1)))"
proof -
  let ?params = "case map_of kvs ''params'' of None \<Rightarrow> JObj [] | Some p \<Rightarrow> p"
  have body: "loop_body dbg (Decoded (JObj kvs)) c = handle_event dbg (JObj kvs) c"
    using assms(1,2) by (rule loop_body_event)
  have raising: "fst (receive_loop dbg (Decoded (JObj kvs) # rest) c) =
      (if m = ''Debugger.paused'' then c\<lparr>paused_data := ?params\<rparr>
       else if m = ''Debugger.resumed'' then c\<lparr>paused_data := JNull\<rparr> else c)
      \<lparr>receive_task := Some Finished\<rparr>" if "h ?params = Some e" for e
    using handle_event_raising [OF assms(2,3) that, of dbg]
    by (auto simp: body Let_def)
  have returning: "fst (receive_loop dbg (Decoded (JObj kvs) # rest) c) =
      fst (receive_loop dbg rest
        (if m = ''Debugger.paused'' then c\<lparr>paused_data := ?params\<rparr>
         else if m = ''Debugger.resumed'' then c\<lparr>paused_data := JNull\<rparr> else c))"
    if "h ?params = None" "dbg \<and> m = ''Debugger.paused'' \<longrightarrow> (\<exists>ps. ?params = JObj ps)"
  proof -
    have "case event_handlers c m of None \<Rightarrow> True | Some h \<Rightarrow> h ?params = None"
      using assms(3) that(1) by simp
    from handle_event_returning [OF assms(2) this that(2)]
    show ?thesis by (auto simp: body Let_def split: prod.splits)
  qed
  show ?thesis
    unfolding Let_def using raising returning by blast
qed

theorem handler_exception_ends_loop_witness:
  "''id'' \<notin> set (map fst [(''method'', JStr ''Page.loadEventFired'')]) \<and>
   map_of [(''method'', JStr ''Page.loadEventFired'')] ''method''
     = Some (JStr ''Page.loadEventFired'') \<and>
   event_handlers picky_client ''Page.loadEventFired''
     = Some (\<lambda>params. if params = JObj [] then Some (HandlerError ''no params'') else None) \<and>
   fst (receive_loop False
          [Decoded (JObj [(''method'', JStr ''Page.loadEventFired'')]),
           Decoded (JObj [(''id'', JInt 1), (''result'', JObj [])])] picky_client)
     = picky_client\<lparr>receive_task := Some Finished\<rparr> \<and>
   fst (receive_loop False
          [Decoded (JObj [(''method'', JStr ''Page.loadEventFired''),
                          (''params'', JObj [(''timestamp'', JInt 5)])]),
           Decoded (JObj [(''id'', JInt 1), (''result'', JObj [])])] picky_client)
     = fst (receive_loop False
          [Decoded (JObj [(''id'', JInt 1), (''result'', JObj [])])] picky_client)"
  using handler_exception_ends_loop
          [of "[(''method'', JStr ''Page.loadEventFired'')]" "''Page.loadEventFired''"
              picky_client
              "\<lambda>params. if params = JObj [] then Some (HandlerError ''no params'') else None"
              False "[Decoded (JObj [(''id'', JInt 1), (''result'', JObj [])])]"]
        handler_exception_ends_loop
          [of "[(''method'', JStr ''Page.loadEventFired''),
                (''params'', JObj [(''timestamp'', JInt 5)])]" "''Page.loadEventFired''"
              picky_client
              "\<lambda>params. if params = JObj [] then Some (HandlerError ''no params'') else None"
              False "[Decoded (JObj [(''id'', JInt 1), (''result'', JObj [])])]"]
  unfolding Let_def by (simp add: picky_client_eq)

text \<open>
  The handler raises on the first message; the response to the pending request 1 that
  follows is never processed.
\<close>

theorem handler_exception_counterexample:
  "fst (receive_loop False
          [Decoded (JObj [(''method'', JStr ''Page.loadEventFired'')]),
           Decoded (JObj [(''id'', JInt 1), (''result'', JObj [])])] picky_client)
     = picky_client\<lparr>receive_task := Some Finished\<rparr> \<and>
   pending_responses (fst (receive_loop False
          [Decoded (JObj [(''method'', JStr ''Page.loadEventFired'')]),
           Decoded (JObj [(''id'', JInt 1), (''result'', JObj [])])] picky_client)) 1
     = Some Waiting"
  by (simp add: picky_client_eq loop_body_def handle_event_def)

text \<open>
  C7, as the code has it: a delivered \<^verbatim>\<open>Debugger.paused\<close> event sets \<open>paused_data\<close>
  to the event's params, or to the empty dict when the event has none; a delivered
  \<^verbatim>\<open>Debugger.resumed\<close> event sets it to \<open>None\<close>. This holds whatever handler is
  registered for the method, also one that raises: the built-in handling is done before
  the handler is called. (Whether \<open>paused_data\<close> is non-empty afterwards is therefore
  whether the params were.)
\<close>

theorem pause_snapshot_tracking:
  assumes "''id'' \<notin> set (map fst kvs)"
  shows
    "(map_of kvs ''method'' = Some (JStr ''Debugger.paused'') \<longrightarrow>
        paused_data (fst (receive_loop dbg [Decoded (JObj kvs)] c)) =
          (case map_of kvs ''params'' of None \<Rightarrow> JObj [] | Some p \<Rightarrow> p)) \<and>
     (map_of kvs ''method'' = Some (JStr ''Debugger.resumed'') \<longrightarrow>
        paused_data (fst (receive_loop dbg [Decoded (JObj kvs)] c)) = JNull)"
proof -
  have "paused_data (fst (receive_loop dbg [Decoded (JObj kvs)] c)) =
          paused_data (fst (snd (handle_event dbg (JObj kvs) c)))"
    if "map_of kvs ''method'' = Some v" for v
    using loop_body_event [OF assms that, of dbg c]
    by (auto split: prod.splits option.splits)
  moreover have "paused_data (fst (snd (handle_event dbg (JObj kvs) c))) =
          (case map_of kvs ''params'' of None \<Rightarrow> JObj [] | Some p \<Rightarrow> p)"
    if "map_of kvs ''method'' = Some (JStr ''Debugger.paused'')"
    using that
    by (cases "py_get (case map_of kvs ''params'' of None \<Rightarrow> JObj [] | Some p \<Rightarrow> p)
                 ''reason'' (JStr ''unknown'')")
       (auto simp: handle_event_def Let_def split: option.splits)
  moreover have "paused_data (fst (snd (handle_event dbg (JObj kvs) c))) = JNull"
    if "map_of kvs ''method'' = Some (JStr ''Debugger.resumed'')"
    using that by (auto simp: handle_event_def Let_def split: option.splits)
  ultimately show ?thesis by simp
qed

theorem pause_snapshot_tracking_witness:
  "''id'' \<notin> set (map fst [(''method'', JStr ''Debugger.paused''),
                            (''params'', JObj [(''reason'', JStr ''other''),
                                               (''callFrames'', JArr [])])]) \<and>
   map_of [(''method'', JStr ''Debugger.paused''),
           (''params'', JObj [(''reason'', JStr ''other''), (''callFrames'', JArr [])])]
     ''method'' = Some (JStr ''Debugger.paused'') \<and>
   paused_data (fst (receive_loop True
      [Decoded (JObj [(''method'', JStr ''Debugger.paused''),
                      (''params'', JObj [(''reason'', JStr ''other''),
                                         (''callFrames'', JArr [])])])] page_client))
     = JObj [(''reason'', JStr ''other''), (''callFrames'', JArr [])] \<and>
   ''id'' \<notin> set (map fst [(''method'', JStr ''Debugger.resumed'')]) \<and>
   map_of [(''method'', JStr ''Debugger.resumed'')] ''method'' = Some (JStr ''Debugger.resumed'') \<and>
   paused_data (fst (receive_loop True [Decoded (JObj [(''method'', JStr ''Debugger.resumed'')])]
      paused_client)) = JNull"
  using pause_snapshot_tracking
          [of "[(''method'', JStr ''Debugger.paused''),
                (''params'', JObj [(''reason'', JStr ''other''), (''callFrames'', JArr [])])]"
              True page_client]
        pause_snapshot_tracking [of "[(''method'', JStr ''Debugger.resumed'')]" True paused_client]
  by simp

text \<open>
  A \<^verbatim>\<open>Debugger.paused\<close> event without params leaves the empty dict in
  \<open>paused_data\<close>, which the tools read as "not paused"; one whose params are \<open>null\<close>
  leaves \<open>None\<close>, the value of a session that never paused.
\<close>

theorem pause_snapshot_counterexample:
  "\<not> truthy (paused_data (fst (receive_loop False
        [Decoded (JObj [(''method'', JStr ''Debugger.paused'')])] page_client))) \<and>
   paused_data (fst (receive_loop False
        [Decoded (JObj [(''method'', JStr ''Debugger.paused''), (''params'', JNull)])]
        page_client)) = JNull"
  by (simp add: page_client_eq loop_body_def handle_event_def)

section \<open>Timeouts\<close>

text \<open>
  When the wait of a suspended call with id \<open>i\<close> times out and the call runs on before
  anything else happens, exactly the entry \<open>i\<close> is removed from \<open>pending_responses\<close>
  and that call alone fails, with the timeout error: every other entry, the websocket,
  the receive task, the other waiting calls and the outcomes of the other calls are as
  before. A response bearing the id \<open>i\<close> that arrives after that changes nothing at
  all.
\<close>

lemma timeout_is_local:
  assumes "waiting w i = Some method" and "pending_responses (client w) i = Some Waiting"
  shows
    "(let w1 = step dbg (step dbg w (Expire i)) (Resume i)
      in w1 = w\<lparr>client := (client w)\<lparr>pending_responses :=
                                        (pending_responses (client w))(i := None)\<rparr>,
                 waiting := (waiting w)(i := None),
                 finished := (finished w)(i \<mapsto>
                    Raised (RuntimeError ''CDP command timeout: '' (Some (JStr method))))\<rparr> \<and>
         (\<forall>kvs v. map_of kvs ''id'' = Some v \<and> int_key v = Inr (Some i) \<longrightarrow>
            step dbg w1 (Arrive (Decoded (JObj kvs))) = w1))"
proof -
  let ?c1 = "(client w)\<lparr>pending_responses := (pending_responses (client w))(i := None)\<rparr>"
  let ?w1 = "w\<lparr>client := ?c1, waiting := (waiting w)(i := None),
                finished := (finished w)(i \<mapsto>
                    Raised (RuntimeError ''CDP command timeout: '' (Some (JStr method))))\<rparr>"
  have a: "step dbg (step dbg w (Expire i)) (Resume i) = ?w1"
    using assms by (simp add: send_command_resume_def)
  have b: "step dbg ?w1 (Arrive (Decoded (JObj kvs))) = ?w1"
    if "map_of kvs ''id'' = Some v" "int_key v = Inr (Some i)" for kvs v
  proof -
    from that(1) have "''id'' \<in> set (map fst kvs)"
      by (metis map_of_eq_None_iff option.distinct(1) set_map)
    then have "loop_body dbg (Decoded (JObj kvs)) ?c1 = (None, ?c1, [])"
      using that by (simp add: loop_body_def)
    then show ?thesis by simp
  qed
  show ?thesis unfolding Let_def a using b by blast
qed

lemma timeout_is_local_example:
  "waiting two_waiting 1 = Some ''Debugger.enable'' \<and>
   pending_responses (client two_waiting) 1 = Some Waiting \<and>
   map_of [(''id'', JInt 1), (''result'', JObj [])] ''id'' = Some (JInt 1) \<and>
   int_key (JInt 1) = Inr (Some 1) \<and>
   pending_responses (client (step False (step False two_waiting (Expire 1)) (Resume 1)))
     = [2 \<mapsto> Waiting] \<and>
   finished (step False (step False two_waiting (Expire 1)) (Resume 1))
     = [1 \<mapsto> Raised (RuntimeError ''CDP command timeout: '' (Some (JStr ''Debugger.enable'')))] \<and>
   waiting (step False (step False two_waiting (Expire 1)) (Resume 1))
     = [2 \<mapsto> ''Debugger.pause''] \<and>
   step False (step False (step False two_waiting (Expire 1)) (Resume 1))
     (Arrive (Decoded (JObj [(''id'', JInt 1), (''result'', JObj [])])))
     = step False (step False two_waiting (Expire 1)) (Resume 1)"
proof -
  have a: "waiting two_waiting 1 = Some ''Debugger.enable''"
    and b: "pending_responses (client two_waiting) 1 = Some Waiting"
    by (simp_all add: two_waiting_eq)
  have c: "map_of [(''id'', JInt 1), (''result'', JObj [])] ''id'' = Some (JInt 1) \<and>
      int_key (JInt 1) = Inr (Some 1)" by simp
  from timeout_is_local [OF a b, of False] c
  have "step False (step False (step False two_waiting (Expire 1)) (Resume 1))
     (Arrive (Decoded (JObj [(''id'', JInt 1), (''result'', JObj [])])))
     = step False (step False two_waiting (Expire 1)) (Resume 1)"
    unfolding Let_def by blast
  moreover from timeout_is_local [OF a b, of False]
  have "step False (step False two_waiting (Expire 1)) (Resume 1) =
     two_waiting\<lparr>client := (client two_waiting)\<lparr>pending_responses :=
                                        (pending_responses (client two_waiting))(1 := None)\<rparr>,
                 waiting := (waiting two_waiting)(1 := None),
                 finished := (finished two_waiting)(1 \<mapsto>
                    Raised (RuntimeError ''CDP command timeout: ''
                              (Some (JStr ''Debugger.enable''))))\<rparr>"
    unfolding Let_def by blast
  ultimately show ?thesis using a b c
    by (auto simp: two_waiting_eq fun_upd_twist)
qed

text \<open>
  C5 fails on the code when the response comes in between. \<^verbatim>\<open>asyncio.wait_for\<close>
  cancels the future at the moment the timeout expires, while the entry is deleted only
  when the call's coroutine runs again. A response with id 1 that the receive loop reads
  in between finds the id still in \<open>pending_responses\<close>, and \<^verbatim>\<open>set_result\<close> on the
  cancelled future raises \<^verbatim>\<open>InvalidStateError\<close>: the receive loop ends. Call 1 then
  fails with its timeout error as it should, but the response to request 2 is never
  read and request 2 stays pending. Had call 1 run on before the response arrived, the
  same two responses would have left request 2 resolved.
\<close>

theorem response_in_timeout_window:
  "receive_task (client (run False
      [Expire 1, Arrive (Decoded (JObj [(''id'', JInt 1), (''result'', JObj [])]))]
      two_waiting)) = Some Finished \<and>
   pending_responses (client (run False
      [Expire 1, Arrive (Decoded (JObj [(''id'', JInt 1), (''result'', JObj [])]))]
      two_waiting)) = [1 \<mapsto> Cancelled, 2 \<mapsto> Waiting] \<and>
   pending_responses (client (run False
      [Expire 1, Arrive (Decoded (JObj [(''id'', JInt 1), (''result'', JObj [])])), Resume 1,
       Arrive (Decoded (JObj [(''id'', JInt 2), (''result'', JObj [])]))]
      two_waiting)) = [2 \<mapsto> Waiting] \<and>
   pending_responses (client (run False
      [Expire 1, Resume 1, Arrive (Decoded (JObj [(''id'', JInt 1), (''result'', JObj [])])),
       Arrive (Decoded (JObj [(''id'', JInt 2), (''result'', JObj [])]))]
      two_waiting)) = [2 \<mapsto> Resolved (JObj [(''id'', JInt 2), (''result'', JObj [])])]"
  by (simp add: run_def two_waiting_eq loop_body_def send_command_resume_def fun_upd_twist)

section \<open>The pause gate of the debugger tools\<close>

lemma map_of_replace:
  "map_of xs a = Some y \<Longrightarrow>
   map_of (map (\<lambda>kv. if Some (fst kv) = Some a then (fst kv, x) else kv) xs) a = Some x"
  by (induction xs) (auto split: if_splits)

lemma get_put_connection:
  assumes "get_connection m cid = Some cdp"
  shows "get_connection (put_connection m cid cdp1) cid = Some cdp1"
proof (cases cid)
  case None
  with assms obtain a where a: "active_connection_id m = Some a" "a \<noteq> []"
    "map_of (connections m) a = Some cdp"
    by (auto simp: get_connection_def get_active_def split: option.splits if_splits)
  with None show ?thesis
    using map_of_replace [OF a(3), of cdp1]
    by (simp add: get_connection_def get_active_def put_connection_def)
next
  case (Some k)
  with assms have "map_of (connections m) k = Some cdp"
    by (simp add: get_connection_def manager_get_def)
  with Some show ?thesis
    using map_of_replace [of "connections m" k cdp cdp1]
    by (simp add: get_connection_def manager_get_def put_connection_def)
qed

lemma issue_open:
  assumes "ws cdp = Some w" "is_open w"
  shows "send_command_issue method (Some params) cdp =
     (Inr (msg_id cdp + 1),
      cdp\<lparr>msg_id := msg_id cdp + 1,
          pending_responses := (pending_responses cdp)(msg_id cdp + 1 \<mapsto> Waiting),
          ws := Some (w\<lparr>sent := sent w @
                 [JObj [(''id'', JInt (msg_id cdp + 1)), (''method'', JStr method),
                        (''params'', if truthy params then params else JObj [])]]\<rparr>)\<rparr>)"
  using assms by (simp add: send_command_issue_def Let_def)

text \<open>
  C6: for the session that \<open>connection_id\<close> resolves to, each of resume, step over,
  step into, step out and evaluate-on-call-frame answers "Not paused" when
  \<open>paused_data\<close> is empty (falsy), leaving the manager and every client untouched, so
  nothing is written to the websocket; when \<open>paused_data\<close> is non-empty and the
  session's websocket is open, the tool writes its own command, with the next request
  id, and is suspended waiting for the response.
\<close>

theorem pause_gate:
  assumes "get_connection m cid = Some cdp"
  shows
    "(\<not> truthy (paused_data cdp) \<longrightarrow>
        debugger_resume cid m =
          (Replied (Text ''Not paused. Nothing to resume.''), m)) \<and>
     (truthy (paused_data cdp) \<and> ws cdp = Some w \<and> is_open w \<longrightarrow>
        fst (debugger_resume cid m) = Suspended (msg_id cdp + 1) \<and>
        wire (snd (debugger_resume cid m)) cid =
          wire m cid @ [JObj [(''id'', JInt (msg_id cdp + 1)),
                              (''method'', JStr ''Debugger.resume''),
                              (''params'', JObj [])]]) \<and>
     (\<not> truthy (paused_data cdp) \<longrightarrow>
        debugger_step_over cid m =
          (Replied (Text ''Not paused. Cannot step when execution is not paused.''), m)) \<and>
     (truthy (paused_data cdp) \<and> ws cdp = Some w \<and> is_open w \<longrightarrow>
        fst (debugger_step_over cid m) = Suspended (msg_id cdp + 1) \<and>
        wire (snd (debugger_step_over cid m)) cid =
          wire m cid @ [JObj [(''id'', JInt (msg_id cdp + 1)),
                              (''method'', JStr ''Debugger.stepOver''),
                              (''params'', JObj [])]]) \<and>
     (\<not> truthy (paused_data cdp) \<longrightarrow>
        debugger_step_into cid m =
          (Replied (Text ''Not paused. Cannot step when execution is not paused.''), m)) \<and>
     (truthy (paused_data cdp) \<and> ws cdp = Some w \<and> is_open w \<longrightarrow>
        fst (debugger_step_into cid m) = Suspended (msg_id cdp + 1) \<and>
        wire (snd (debugger_step_into cid m)) cid =
          wire m cid @ [JObj [(''id'', JInt (msg_id cdp + 1)),
                              (''method'', JStr ''Debugger.stepInto''),
                              (''params'', JObj [])]]) \<and>
     (\<not> truthy (paused_data cdp) \<longrightarrow>
        debugger_step_out cid m =
          (Replied (Text ''Not paused. Cannot step when execution is not paused.''), m)) \<and>
     (truthy (paused_data cdp) \<and> ws cdp = Some w \<and> is_open w \<longrightarrow>
        fst (debugger_step_out cid m) = Suspended (msg_id cdp + 1) \<and>
        wire (snd (debugger_step_out cid m)) cid =
          wire m cid @ [JObj [(''id'', JInt (msg_id cdp + 1)),
                              (''method'', JStr ''Debugger.stepOut''),
                              (''params'', JObj [])]]) \<and>
     (\<not> truthy (paused_data cdp) \<longrightarrow>
        debugger_evaluate_on_call_frame frame expr cid m =
          (Replied (Text ''Not paused. Cannot evaluate expressions outside of paused context.''), m)) \<and>
     (truthy (paused_data cdp) \<and> ws cdp = Some w \<and> is_open w \<longrightarrow>
        fst (debugger_evaluate_on_call_frame frame expr cid m) = Suspended (msg_id cdp + 1) \<and>
        wire (snd (debugger_evaluate_on_call_frame frame expr cid m)) cid =
          wire m cid @ [JObj [(''id'', JInt (msg_id cdp + 1)),
                              (''method'', JStr ''Debugger.evaluateOnCallFrame''),
                              (''params'', JObj [(''callFrameId'', JStr frame),
                                                 (''expression'', JStr expr)])]])"
  using assms get_put_connection [OF assms]
  by (simp add: debugger_resume_def debugger_step_over_def debugger_step_into_def
        debugger_step_out_def debugger_evaluate_on_call_frame_def issue_open wire_def)

theorem pause_gate_witness:
  "get_connection page_manager None = Some page_client \<and>
   \<not> truthy (paused_data page_client) \<and>
   debugger_step_over None page_manager =
     (Replied (Text ''Not paused. Cannot step when execution is not paused.''), page_manager) \<and>
   wire (snd (debugger_step_over None page_manager)) None = [] \<and>
   get_connection paused_manager None = Some paused_client \<and>
   truthy (paused_data paused_client) \<and>
   ws paused_client = Some \<lparr>is_open = True, sent = []\<rparr> \<and>
   fst (debugger_step_over None paused_manager) = Suspended 1 \<and>
   wire (snd (debugger_step_over None paused_manager)) None =
     [JObj [(''id'', JInt 1), (''method'', JStr ''Debugger.stepOver''), (''params'', JObj [])]] \<and>
   wire (snd (debugger_evaluate_on_call_frame ''frame0'' ''1+1'' None paused_manager)) None =
     [JObj [(''id'', JInt 1), (''method'', JStr ''Debugger.evaluateOnCallFrame''),
            (''params'', JObj [(''callFrameId'', JStr ''frame0''),
                               (''expression'', JStr ''1+1'')])]]"
proof -
  have a: "get_connection page_manager None = Some page_client"
    by (simp add: page_manager_eq get_connection_def get_active_def)
  have b: "get_connection paused_manager None = Some paused_client"
    by (simp add: paused_manager_eq get_connection_def get_active_def)
  have c: "\<not> truthy (paused_data page_client)"
    "truthy (paused_data paused_client)"
    "ws paused_client = Some \<lparr>is_open = True, sent = []\<rparr>"
    "msg_id paused_client = 0"
    "wire paused_manager None = []" "wire page_manager None = []"
    by (simp_all add: page_client_eq paused_client_eq wire_def a b)
  from pause_gate [OF a, of "\<lparr>is_open = True, sent = []\<rparr>" "''frame0''" "''1+1''"]
       pause_gate [OF b, of "\<lparr>is_open = True, sent = []\<rparr>" "''frame0''" "''1+1''"]
       a b c
  show ?thesis by simp
qed

section \<open>Breakpoint line numbers\<close>

text \<open>
  C8: \<^verbatim>\<open>debugger_set_breakpoint\<close> with the 1-indexed line \<open>n\<close> writes a
  \<^verbatim>\<open>Debugger.setBreakpointByUrl\<close> command whose \<open>lineNumber\<close> is \<open>n - 1\<close>; the
  confirmation shows the line \<open>n\<close> as given and, for the first location the remote
  confirmed at 0-indexed line \<open>k\<close>, the actual line \<open>k + 1\<close>. When the remote confirms
  the line it was sent, the actual line reported is \<open>n\<close> again.
\<close>

theorem breakpoint_line_round_trip:
  "(get_connection m cid = Some cdp \<and> ws cdp = Some w \<and> is_open w \<longrightarrow>
      fst (debugger_set_breakpoint url n col cond cid m) = Suspended (msg_id cdp + 1) \<and>
      wire (snd (debugger_set_breakpoint url n col cond cid m)) cid =
        wire m cid @ [JObj [(''id'', JInt (msg_id cdp + 1)),
                            (''method'', JStr ''Debugger.setBreakpointByUrl''),
                            (''params'', set_breakpoint_params url n col cond)]]) \<and>
   py_getitem (set_breakpoint_params url n col cond) ''lineNumber'' = Inr (JInt (n - 1)) \<and>
   (py_get result ''breakpointId'' JNull = Inr bid \<and> dict_key bid = Inr key \<and>
    py_get result ''locations'' (JArr []) = Inr (JArr (loc # others)) \<and>
    py_get loc ''lineNumber'' (JInt 0) = Inr (JInt k) \<and>
    py_get loc ''columnNumber'' (JInt 0) = Inr c \<longrightarrow>
      fst (debugger_set_breakpoint_result url n col cond (Inr result) cdp) =
        BreakpointSet bid url n
          (case cond of None \<Rightarrow> None | Some t \<Rightarrow> if t \<noteq> [] then Some t else None)
          (Some (k + 1, c)) \<and>
      (JInt k = JInt (n - 1) \<longrightarrow>
         fst (debugger_set_breakpoint_result url n col cond (Inr result) cdp) =
           BreakpointSet bid url n
             (case cond of None \<Rightarrow> None | Some t \<Rightarrow> if t \<noteq> [] then Some t else None)
             (Some (n, c))))"
proof -
  have t: "truthy (set_breakpoint_params url n col cond)"
    by (simp add: set_breakpoint_params_def)
  have a: "fst (debugger_set_breakpoint url n col cond cid m) = Suspended (msg_id cdp + 1) \<and>
      wire (snd (debugger_set_breakpoint url n col cond cid m)) cid =
        wire m cid @ [JObj [(''id'', JInt (msg_id cdp + 1)),
                            (''method'', JStr ''Debugger.setBreakpointByUrl''),
                            (''params'', set_breakpoint_params url n col cond)]]"
    if "get_connection m cid = Some cdp" "ws cdp = Some w" "is_open w"
    using that get_put_connection [OF that(1)]
    by (simp add: debugger_set_breakpoint_def issue_open wire_def t)
  have b: "py_getitem (set_breakpoint_params url n col cond) ''lineNumber'' = Inr (JInt (n - 1))"
    by (simp add: set_breakpoint_params_def)
  have c: "fst (debugger_set_breakpoint_result url n col cond (Inr result) cdp) =
        BreakpointSet bid url n
          (case cond of None \<Rightarrow> None | Some t \<Rightarrow> if t \<noteq> [] then Some t else None)
          (Some (k + 1, c))"
    if "py_get result ''breakpointId'' JNull = Inr bid" "dict_key bid = Inr key"
       "py_get result ''locations'' (JArr []) = Inr (JArr (loc # others))"
       "py_get loc ''lineNumber'' (JInt 0) = Inr (JInt k)"
       "py_get loc ''columnNumber'' (JInt 0) = Inr c"
    using that by (simp add: debugger_set_breakpoint_result_def Let_def)
  show ?thesis using a b c by auto
qed

theorem breakpoint_line_round_trip_witness:
  "get_connection page_manager None = Some page_client \<and>
   ws page_client = Some \<lparr>is_open = True, sent = []\<rparr> \<and>
   wire (snd (debugger_set_breakpoint ''http://localhost:3000/app.js'' 42 0 None None
                page_manager)) None =
     [JObj [(''id'', JInt 1), (''method'', JStr ''Debugger.setBreakpointByUrl''),
            (''params'', JObj [(''url'', JStr ''http://localhost:3000/app.js''),
                               (''lineNumber'', JInt 41), (''columnNumber'', JInt 0)])]] \<and>
   fst (debugger_set_breakpoint_result ''http://localhost:3000/app.js'' 42 0 None
          (Inr (JObj [(''breakpointId'', JStr ''1:41:0:app.js''),
                      (''locations'', JArr [JObj [(''scriptId'', JStr ''7''),
                                                  (''lineNumber'', JInt 41),
                                                  (''columnNumber'', JInt 4)]])]))
          page_client) =
     BreakpointSet (JStr ''1:41:0:app.js'') ''http://localhost:3000/app.js'' 42 None
       (Some (42, JInt 4))"
proof -
  have a: "get_connection page_manager None = Some page_client"
    by (simp add: page_manager_eq get_connection_def get_active_def)
  have b: "ws page_client = Some \<lparr>is_open = True, sent = []\<rparr>" "msg_id page_client = 0"
    "wire page_manager None = []"
    by (simp_all add: page_client_eq wire_def a)
  from breakpoint_line_round_trip
         [of page_manager None page_client "\<lparr>is_open = True, sent = []\<rparr>"
             "''http://localhost:3000/app.js''" 42 0 None
             "JObj [(''breakpointId'', JStr ''1:41:0:app.js''),
                    (''locations'', JArr [JObj [(''scriptId'', JStr ''7''),
                                                (''lineNumber'', JInt 41),
                                                (''columnNumber'', JInt 4)]])]"
             "JStr ''1:41:0:app.js''" "JStr ''1:41:0:app.js''"
             "JObj [(''scriptId'', JStr ''7''), (''lineNumber'', JInt 41),
                    (''columnNumber'', JInt 4)]" "[]" 41 "JInt 4"]
       a b
  show ?thesis by (simp add: set_breakpoint_params_def)
qed

section \<open>The manager's active connection\<close>

text \<open>
  C9: every operation of the manager (connect, disconnect, disconnect_all,
  switch_active) preserves the invariant that \<open>active_connection_id\<close>, when it is not
  \<open>None\<close>, is a key of \<open>connections\<close>. Disconnecting the active session makes the
  first remaining key active, or none when the dict becomes empty; and once the dict is
  empty, \<open>get_connection\<close> without an id yields nothing.
\<close>

theorem registry_invariant:
  assumes "active_valid m"
  shows
    "active_valid (snd (manager_connect cid fetched dial m)) \<and>
     active_valid (snd (manager_disconnect cid m)) \<and>
     active_valid (disconnect_all m) \<and>
     active_valid (snd (switch_active cid m)) \<and>
     (active_connection_id m = Some cid \<longrightarrow>
        active_connection_id (snd (manager_disconnect cid m)) =
          (case filter (\<lambda>kv. fst kv \<noteq> cid) (connections m) of
             [] \<Rightarrow> None
           | kv # rest \<Rightarrow> Some (fst kv))) \<and>
     (connections (snd (manager_disconnect cid m)) = [] \<longrightarrow>
        get_connection (snd (manager_disconnect cid m)) None = None)"
proof -
  have 1: "active_valid (snd (manager_connect cid fetched dial m))"
    using assms
    by (auto simp: manager_connect_def active_valid_def Let_def
             split: prod.splits option.splits)
  have 2: "active_valid (snd (manager_disconnect cid m))"
  proof (cases "active_connection_id m = Some cid")
    case True
    with assms show ?thesis
      by (cases "filter (\<lambda>kv. fst kv \<noteq> cid) (connections m)")
         (auto simp: manager_disconnect_def active_valid_def Let_def)
  next
    case False
    with assms show ?thesis
      by (auto simp: manager_disconnect_def active_valid_def Let_def split: option.splits)
  qed
  have 3: "active_valid (disconnect_all m)"
    by (simp add: disconnect_all_def active_valid_def)
  have 4: "active_valid (snd (switch_active cid m))"
    using assms by (auto simp: switch_active_def active_valid_def split: option.splits)
  have 5: "active_connection_id (snd (manager_disconnect cid m)) =
          (case filter (\<lambda>kv. fst kv \<noteq> cid) (connections m) of
             [] \<Rightarrow> None
           | kv # rest \<Rightarrow> Some (fst kv))" if "active_connection_id m = Some cid"
    using that assms
    by (auto simp: manager_disconnect_def active_valid_def Let_def)
  have 6: "get_connection (snd (manager_disconnect cid m)) None = None"
    if "connections (snd (manager_disconnect cid m)) = []"
    using 2 that
    by (auto simp: active_valid_def get_connection_def get_active_def split: option.splits)
  from 1 2 3 4 5 6 show ?thesis by blast
qed

theorem registry_invariant_witness:
  "active_valid two_sessions \<and>
   active_connection_id two_sessions = Some ''a'' \<and>
   map fst (connections two_sessions) = [''a'', ''b''] \<and>
   active_connection_id (snd (manager_disconnect ''a'' two_sessions)) = Some ''b'' \<and>
   active_valid (snd (manager_disconnect ''a'' two_sessions)) \<and>
   connections (snd (manager_disconnect ''b'' (snd (manager_disconnect ''a'' two_sessions)))) = [] \<and>
   get_connection (snd (manager_disconnect ''b'' (snd (manager_disconnect ''a'' two_sessions))))
     None = None"
proof -
  have a: "active_valid two_sessions"
    by (simp add: two_sessions_eq active_valid_def)
  note r = registry_invariant [OF a, of "''a''" "Inl ConnectionClosed" "\<lambda>u. Inl ConnectionClosed"]
  have b: "active_valid (snd (manager_disconnect ''a'' two_sessions))"
    using r by blast
  have c: "connections (snd (manager_disconnect ''b'' (snd (manager_disconnect ''a'' two_sessions)))) = []"
    by (simp add: two_sessions_eq manager_disconnect_def)
  from registry_invariant [OF b, of "''b''" "Inl ConnectionClosed" "\<lambda>u. Inl ConnectionClosed"] c
  have d: "get_connection (snd (manager_disconnect ''b'' (snd (manager_disconnect ''a'' two_sessions))))
     None = None" by blast
  have e: "active_connection_id two_sessions = Some ''a''"
    "map fst (connections two_sessions) = [''a'', ''b'']"
    by (simp_all add: two_sessions_eq)
  from r e have "active_connection_id (snd (manager_disconnect ''a'' two_sessions)) = Some ''b''"
    by (simp add: two_sessions_eq)
  with a b c d e show ?thesis by simp
qed

section \<open>Responses are matched to calls by id\<close>

lemma handle_event_pending:
  "handle_event dbg event c = (r, c1, out) \<Longrightarrow> pending_responses c1 = pending_responses c"
  by (auto simp: handle_event_def Let_def split: sum.splits option.splits if_splits json.splits)

lemma loop_body_pending:
  assumes "loop_body dbg message c = (r, c1, out)"
    and "pending_responses c1 i = Some (Resolved d)"
  shows "pending_responses c i = Some (Resolved d) \<or>
         (message = Decoded d \<and>
          (\<exists>kvs v. d = JObj kvs \<and> map_of kvs ''id'' = Some v \<and> int_key v = Inr (Some i)))"
proof (cases message)
  case Undecodable
  with assms show ?thesis by (simp add: loop_body_def)
next
  case (Decoded data)
  show ?thesis
  proof (cases "py_contains ''id'' data")
    case (Inl e)
    with assms Decoded show ?thesis by (simp add: loop_body_def)
  next
    case (Inr b)
    show ?thesis
    proof (cases b)
      case False
      with assms Decoded Inr show ?thesis
        by (auto simp: loop_body_def split: sum.splits bool.splits dest: handle_event_pending)
    next
      case True
      show ?thesis
      proof (cases data)
        case (JObj kvs)
        with assms Decoded Inr True show ?thesis
          by (auto simp: loop_body_def
                   split: sum.splits option.splits future.splits if_splits)
      qed (use assms Decoded Inr True in \<open>auto simp: loop_body_def\<close>)
    qed
  qed
qed

lemma receive_loop_single_pending:
  assumes "receive_loop dbg [message] c = (c1, out)"
    and "pending_responses c1 i = Some (Resolved d)"
  shows "pending_responses c i = Some (Resolved d) \<or>
         (message = Decoded d \<and>
          (\<exists>kvs v. d = JObj kvs \<and> map_of kvs ''id'' = Some v \<and> int_key v = Inr (Some i)))"
proof -
  obtain r c2 out2 where b: "loop_body dbg message c = (r, c2, out2)"
    by (metis prod_cases3)
  with assms(1) have "pending_responses c1 = pending_responses c2"
    by (cases r) auto
  with assms(2) loop_body_pending [OF b] show ?thesis by simp
qed

lemma issue_pending:
  assumes "send_command_issue meth pars c = (r, c1)"
    and "pending_responses c1 i = Some (Resolved d)"
  shows "pending_responses c i = Some (Resolved d)"
  using assms
  by (auto simp: send_command_issue_def Let_def split: option.splits if_splits)

lemma resume_pending:
  assumes "send_command_resume i meth c = Some (r, c1)"
    and "pending_responses c1 j = Some (Resolved d)"
  shows "pending_responses c j = Some (Resolved d)"
  using assms
  by (auto simp: send_command_resume_def Let_def
           split: option.splits future.splits sum.splits bool.splits if_splits)

lemma resume_returned:
  assumes "send_command_resume i meth c = Some (Inr v, c1)"
  shows "\<exists>d. pending_responses c i = Some (Resolved d) \<and>
             py_contains ''error'' d = Inr False \<and> py_get d ''result'' (JObj []) = Inr v"
  using assms
  by (auto simp: send_command_resume_def Let_def
           split: option.splits future.splits sum.splits bool.splits if_splits)


lemma run_snoc: "run dbg (acts @ [a]) w = step dbg (run dbg acts w) a"
  by (simp add: run_def)

lemma step_resolved:
  assumes "pending_responses (client (step dbg w a)) i = Some (Resolved d)"
  shows "pending_responses (client w) i = Some (Resolved d) \<or>
         (a = Arrive (Decoded d) \<and>
          (\<exists>kvs v. d = JObj kvs \<and> map_of kvs ''id'' = Some v \<and> int_key v = Inr (Some i)))"
proof (cases a)
  case (Call meth pars)
  obtain r c1 where s: "send_command_issue meth pars (client w) = (r, c1)"
    by (metis surj_pair)
  with assms Call have "pending_responses c1 i = Some (Resolved d)"
    by (cases r) auto
  from issue_pending [OF s this] show ?thesis ..
next
  case (Arrive message)
  show ?thesis
  proof (cases "receive_task (client w) = Some Running")
    case True
    obtain c1 out where s: "receive_loop dbg [message] (client w) = (c1, out)"
      by (metis surj_pair)
    with assms Arrive True have "pending_responses c1 i = Some (Resolved d)"
      by simp
    from receive_loop_single_pending [OF s this] Arrive show ?thesis by simp
  next
    case False
    with assms Arrive show ?thesis by simp
  qed
next
  case (Expire j)
  with assms show ?thesis by (auto split: if_splits)
next
  case (Resume j)
  show ?thesis
  proof (cases "waiting w j")
    case None
    with assms Resume show ?thesis by simp
  next
    case (Some meth)
    show ?thesis
    proof (cases "send_command_resume j meth (client w)")
      case None
      with assms Resume Some show ?thesis by simp
    next
      case (Some rc)
      obtain r c1 where rc: "rc = (r, c1)" by (metis surj_pair)
      with assms Resume \<open>waiting w j = Some meth\<close> Some
      have "pending_responses c1 i = Some (Resolved d)" by simp
      from resume_pending [OF Some [unfolded rc] this] show ?thesis ..
    qed
  qed
qed

lemma step_returned:
  assumes "finished (step dbg w a) i = Some (Returned r)"
  shows "finished w i = Some (Returned r) \<or>
         (\<exists>d. pending_responses (client w) i = Some (Resolved d) \<and>
              py_contains ''error'' d = Inr False \<and> py_get d ''result'' (JObj []) = Inr r)"
proof (cases a)
  case (Call meth pars)
  with assms show ?thesis by (auto split: prod.splits sum.splits)
next
  case (Arrive message)
  with assms show ?thesis by (auto split: if_splits prod.splits)
next
  case (Expire j)
  with assms show ?thesis by (auto split: if_splits)
next
  case (Resume j)
  show ?thesis
  proof (cases "waiting w j")
    case None
    with assms Resume show ?thesis by simp
  next
    case (Some meth)
    show ?thesis
    proof (cases "send_command_resume j meth (client w)")
      case None
      with assms Resume Some show ?thesis by simp
    next
      case (Some rc)
      obtain x c1 where rc: "rc = (x, c1)" by (metis surj_pair)
      show ?thesis
      proof (cases "i = j")
        case False
        with assms Resume \<open>waiting w j = Some meth\<close> Some rc show ?thesis by simp
      next
        case True
        with assms Resume \<open>waiting w j = Some meth\<close> Some rc
        have "x = Inr r" by (cases x) auto
        with Some rc True resume_returned [of i meth "client w" r c1]
        show ?thesis by simp
      qed
    qed
  qed
qed

lemma run_resolved:
  assumes "pending_responses c = Map.empty"
    and "pending_responses (client (run dbg acts (start c))) i = Some (Resolved d)"
  shows "Arrive (Decoded d) \<in> set acts \<and>
         (\<exists>kvs v. d = JObj kvs \<and> map_of kvs ''id'' = Some v \<and> int_key v = Inr (Some i))"
  using assms(2)
proof (induction acts arbitrary: i d rule: rev_induct)
  case Nil
  with assms(1) show ?case by (simp add: run_def start_def)
next
  case (snoc a acts)
  from snoc.prems step_resolved [of dbg "run dbg acts (start c)" a i d]
  consider "pending_responses (client (run dbg acts (start c))) i = Some (Resolved d)"
    | "a = Arrive (Decoded d)"
      "\<exists>kvs v. d = JObj kvs \<and> map_of kvs ''id'' = Some v \<and> int_key v = Inr (Some i)"
    by (auto simp: run_snoc)
  then show ?case
  proof cases
    case 1
    from snoc.IH [OF this] show ?thesis by simp
  next
    case 2
    then show ?thesis by simp
  qed
qed

lemma run_returned:
  assumes "pending_responses c = Map.empty"
    and "finished (run dbg acts (start c)) i = Some (Returned r)"
  shows "\<exists>kvs v. Arrive (Decoded (JObj kvs)) \<in> set acts \<and>
           map_of kvs ''id'' = Some v \<and> int_key v = Inr (Some i) \<and>
           ''error'' \<notin> set (map fst kvs) \<and>
           r = (case map_of kvs ''result'' of None \<Rightarrow> JObj [] | Some x \<Rightarrow> x)"
  using assms(2)
proof (induction acts arbitrary: i r rule: rev_induct)
  case Nil
  then show ?case by (simp add: run_def start_def)
next
  case (snoc a acts)
  from snoc.prems step_returned [of dbg "run dbg acts (start c)" a i r]
  consider "finished (run dbg acts (start c)) i = Some (Returned r)"
    | d where "pending_responses (client (run dbg acts (start c))) i = Some (Resolved d)"
        "py_contains ''error'' d = Inr False" "py_get d ''result'' (JObj []) = Inr r"
    by (auto simp: run_snoc)
  then show ?case
  proof cases
    case 1
    from snoc.IH [OF this] show ?thesis by auto
  next
    case 2
    from run_resolved [OF assms(1) 2(1)] obtain kvs v where
      d: "Arrive (Decoded d) \<in> set acts" "d = JObj kvs" "map_of kvs ''id'' = Some v"
         "int_key v = Inr (Some i)"
      by blast
    with 2(2,3) have "''error'' \<notin> set (map fst kvs)"
      "r = (case map_of kvs ''result'' of None \<Rightarrow> JObj [] | Some x \<Rightarrow> x)"
      by auto
    with d show ?thesis by auto
  qed
qed

lemma py_contains_raises: "py_contains k d = Inl e \<Longrightarrow> e = TypeError"
  by (cases d) auto

lemma py_getitem_raises: "py_getitem d k = Inl e \<Longrightarrow> e = TypeError \<or> e = KeyError"
  by (cases d) (auto split: option.splits)

lemma py_get_raises: "py_get d k x = Inl e \<Longrightarrow> e = AttributeError"
  by (cases d) auto

lemma resume_cdp_error:
  assumes "send_command_resume i meth c = Some (Inl (RuntimeError ''CDP error: '' (Some err)), c1)"
  shows "\<exists>d. pending_responses c i = Some (Resolved d) \<and> py_getitem d ''error'' = Inr err"
proof -
  from assms obtain d where d: "pending_responses c i = Some (Resolved d)"
    by (auto simp: send_command_resume_def split: option.splits future.splits)
  have "py_getitem d ''error'' = Inr err"
  proof (cases "py_contains ''error'' d")
    case (Inl e)
    with assms d py_contains_raises [OF Inl] show ?thesis
      by (simp add: send_command_resume_def)
  next
    case (Inr b)
    show ?thesis
    proof (cases b)
      case True
      show ?thesis
      proof (cases "py_getitem d ''error''")
        case (Inl e)
        with assms d Inr True py_getitem_raises [OF Inl] show ?thesis
          by (auto simp: send_command_resume_def)
      next
        case (Inr x)
        with assms d \<open>py_contains ''error'' d = Inr b\<close> True show ?thesis
          by (simp add: send_command_resume_def)
      qed
    next
      case False
      show ?thesis
      proof (cases "py_get d ''result'' (JObj [])")
        case (Inl e)
        with assms d Inr False py_get_raises [OF Inl] show ?thesis
          by (simp add: send_command_resume_def)
      next
        case (Inr x)
        with assms d \<open>py_contains ''error'' d = Inr b\<close> False show ?thesis
          by (simp add: send_command_resume_def)
      qed
    qed
  qed
  with d show ?thesis by blast
qed

lemma step_cdp_error:
  assumes "finished (step dbg w a) i = Some (Raised (RuntimeError ''CDP error: '' (Some err)))"
  shows "finished w i = Some (Raised (RuntimeError ''CDP error: '' (Some err))) \<or>
         (\<exists>d. pending_responses (client w) i = Some (Resolved d) \<and>
              py_getitem d ''error'' = Inr err)"
proof (cases a)
  case (Call meth pars)
  with assms show ?thesis by (auto split: prod.splits sum.splits)
next
  case (Arrive message)
  with assms show ?thesis by (auto split: if_splits prod.splits)
next
  case (Expire j)
  with assms show ?thesis by (auto split: if_splits)
next
  case (Resume j)
  show ?thesis
  proof (cases "waiting w j")
    case None
    with assms Resume show ?thesis by simp
  next
    case (Some meth)
    show ?thesis
    proof (cases "send_command_resume j meth (client w)")
      case None
      with assms Resume Some show ?thesis by simp
    next
      case (Some rc)
      obtain x c1 where rc: "rc = (x, c1)" by (metis surj_pair)
      show ?thesis
      proof (cases "i = j")
        case False
        with assms Resume \<open>waiting w j = Some meth\<close> Some rc show ?thesis by simp
      next
        case True
        with assms Resume \<open>waiting w j = Some meth\<close> Some rc
        have "x = Inl (RuntimeError ''CDP error: '' (Some err))" by (cases x) auto
        with Some rc True resume_cdp_error [of i meth "client w" err c1]
        show ?thesis by simp
      qed
    qed
  qed
qed

lemma run_cdp_error:
  assumes "pending_responses c = Map.empty"
    and "finished (run dbg acts (start c)) i =
           Some (Raised (RuntimeError ''CDP error: '' (Some err)))"
  shows "\<exists>kvs v. Arrive (Decoded (JObj kvs)) \<in> set acts \<and>
           map_of kvs ''id'' = Some v \<and> int_key v = Inr (Some i) \<and>
           map_of kvs ''error'' = Some err"
  using assms(2)
proof (induction acts arbitrary: i err rule: rev_induct)
  case Nil
  then show ?case by (simp add: run_def start_def)
next
  case (snoc a acts)
  from snoc.prems step_cdp_error [of dbg "run dbg acts (start c)" a i err]
  consider "finished (run dbg acts (start c)) i =
              Some (Raised (RuntimeError ''CDP error: '' (Some err)))"
    | d where "pending_responses (client (run dbg acts (start c))) i = Some (Resolved d)"
        "py_getitem d ''error'' = Inr err"
    by (auto simp: run_snoc)
  then show ?case
  proof cases
    case 1
    from snoc.IH [OF this] show ?thesis by auto
  next
    case 2
    from run_resolved [OF assms(1) 2(1)] obtain kvs v where
      d: "Arrive (Decoded d) \<in> set acts" "d = JObj kvs" "map_of kvs ''id'' = Some v"
         "int_key v = Inr (Some i)"
      by blast
    with 2(2) have "map_of kvs ''error'' = Some err"
      by (auto split: option.splits)
    with d show ?thesis by auto
  qed
qed

lemma handle_event_msg_id:
  "handle_event dbg event c = (r, c1, out) \<Longrightarrow> msg_id c1 = msg_id c"
  by (auto simp: handle_event_def Let_def split: sum.splits option.splits if_splits json.splits)

lemma loop_body_msg_id:
  assumes "loop_body dbg message c = (r, c1, out)"
  shows "msg_id c1 = msg_id c"
proof (cases message)
  case Undecodable
  with assms show ?thesis by (simp add: loop_body_def)
next
  case (Decoded data)
  show ?thesis
  proof (cases "py_contains ''id'' data")
    case (Inl e)
    with assms Decoded show ?thesis by (simp add: loop_body_def)
  next
    case (Inr b)
    show ?thesis
    proof (cases b)
      case False
      with assms Decoded Inr show ?thesis
        by (auto simp: loop_body_def split: sum.splits bool.splits dest: handle_event_msg_id)
    next
      case True
      with assms Decoded Inr show ?thesis
        by (auto simp: loop_body_def
                 split: sum.splits option.splits future.splits if_splits)
    qed
  qed
qed

lemma receive_loop_single_msg_id:
  "msg_id (fst (receive_loop dbg [message] c)) = msg_id c"
proof -
  obtain r c2 out2 where b: "loop_body dbg message c = (r, c2, out2)"
    by (metis prod_cases3)
  from loop_body_msg_id [OF b] b show ?thesis by (cases r) auto
qed

lemma resume_msg_id:
  "send_command_resume j meth c = Some (x, c1) \<Longrightarrow> msg_id c1 = msg_id c"
  by (auto simp: send_command_resume_def Let_def
           split: option.splits future.splits sum.splits bool.splits if_splits)

lemma step_ids_bounded:
  assumes "\<And>j. waiting w j \<noteq> None \<or> finished w j \<noteq> None \<Longrightarrow> j \<le> msg_id (client w)"
    and "waiting (step dbg w a) j \<noteq> None \<or> finished (step dbg w a) j \<noteq> None"
  shows "j \<le> msg_id (client (step dbg w a))"
proof (cases a)
  case (Call meth pars)
  show ?thesis
  proof (cases "ws (client w)")
    case None
    with assms Call show ?thesis by (simp add: send_command_issue_def)
  next
    case (Some sock)
    have "j \<le> msg_id (client w) + 1"
    proof (cases "waiting w j \<noteq> None \<or> finished w j \<noteq> None")
      case True
      from assms(1) [OF this] show ?thesis by simp
    next
      case False
      with assms(2) Call Some show ?thesis
        by (auto simp: send_command_issue_def Let_def split: if_splits)
    qed
    with Call Some show ?thesis
      by (auto simp: send_command_issue_def Let_def split: if_splits)
  qed
next
  case (Arrive message)
  show ?thesis
  proof (cases "receive_task (client w) = Some Running")
    case True
    with assms Arrive receive_loop_single_msg_id [of dbg message "client w"] show ?thesis
      by (auto split: prod.splits)
  next
    case False
    with assms Arrive show ?thesis by simp
  qed
next
  case (Expire k)
  with assms show ?thesis by (auto split: if_splits)
next
  case (Resume k)
  show ?thesis
  proof (cases "waiting w k")
    case None
    with assms Resume show ?thesis by simp
  next
    case (Some meth)
    show ?thesis
    proof (cases "send_command_resume k meth (client w)")
      case None
      with assms Resume Some show ?thesis by simp
    next
      case (Some rc)
      obtain x c1 where rc: "rc = (x, c1)" by (metis surj_pair)
      from resume_msg_id [OF Some [unfolded rc]] have m: "msg_id c1 = msg_id (client w)" .
      have "waiting w j \<noteq> None \<or> finished w j \<noteq> None"
        using assms(2) Resume \<open>waiting w k = Some meth\<close> Some rc
        by (auto split: if_splits)
      from assms(1) [OF this] m Resume \<open>waiting w k = Some meth\<close> Some rc
      show ?thesis by simp
    qed
  qed
qed

lemma run_ids_bounded:
  "waiting (run dbg acts (start c)) j \<noteq> None \<or> finished (run dbg acts (start c)) j \<noteq> None
     \<Longrightarrow> j \<le> msg_id (client (run dbg acts (start c)))"
proof (induction acts arbitrary: j rule: rev_induct)
  case Nil
  then show ?case by (simp add: run_def start_def)
next
  case (snoc a acts)
  show ?case
    unfolding run_snoc
    by (rule step_ids_bounded [OF snoc.IH]) (use snoc.prems in \<open>simp_all add: run_snoc\<close>)
qed

lemma issue_id: "send_command_issue meth pars c = (Inr k, c1) \<Longrightarrow> k = msg_id c + 1"
  by (auto simp: send_command_issue_def Let_def split: option.splits if_splits)

lemma loop_body_resolves_own_id:
  assumes "loop_body dbg message c = (e, c1, out)"
    and "pending_responses c1 j \<noteq> pending_responses c j"
  shows "\<exists>kvs v. message = Decoded (JObj kvs) \<and> map_of kvs ''id'' = Some v \<and>
           int_key v = Inr (Some j) \<and> pending_responses c j = Some Waiting \<and>
           pending_responses c1 j = Some (Resolved (JObj kvs))"
proof (cases message)
  case Undecodable
  with assms show ?thesis by (simp add: loop_body_def)
next
  case (Decoded data)
  show ?thesis
  proof (cases "py_contains ''id'' data")
    case (Inl e)
    with assms Decoded show ?thesis by (simp add: loop_body_def)
  next
    case (Inr b)
    show ?thesis
    proof (cases b)
      case False
      with assms Decoded Inr show ?thesis
        by (auto simp: loop_body_def split: sum.splits bool.splits dest: handle_event_pending)
    next
      case True
      show ?thesis
      proof (cases data)
        case (JObj kvs)
        with assms Decoded Inr True show ?thesis
          by (auto simp: loop_body_def
                   split: sum.splits option.splits future.splits if_splits)
      qed (use assms Decoded Inr True in \<open>auto simp: loop_body_def\<close>)
    qed
  qed
qed

text \<open>
  C1: start from a client with no request pending and let calls, arriving messages,
  timeouts and resumptions happen in any order. A call that was given id \<open>i\<close> and
  returned \<open>r\<close> took \<open>r\<close> from a response that arrived with an \<open>id\<close> equal to \<open>i\<close>
  (its \<open>result\<close>, or the empty dict when it has none; equal as Python compares dict
  keys, so \<open>true\<close> is the id 1); a call that failed with a CDP
  error carries the \<open>error\<close> of such a response. The id given to a new call is the id
  of no call issued before. And one pass of the receive loop's body changes the future
  of no request but the one stored under the incoming message's \<open>id\<close>, which it
  resolves with that message.
\<close>

theorem responses_matched_by_id:
  assumes "pending_responses c = Map.empty"
  shows
    "(finished (run dbg acts (start c)) i = Some (Returned r) \<longrightarrow>
        (\<exists>kvs v. Arrive (Decoded (JObj kvs)) \<in> set acts \<and>
           map_of kvs ''id'' = Some v \<and> int_key v = Inr (Some i) \<and>
           ''error'' \<notin> set (map fst kvs) \<and>
           r = (case map_of kvs ''result'' of None \<Rightarrow> JObj [] | Some x \<Rightarrow> x))) \<and>
     (finished (run dbg acts (start c)) i =
        Some (Raised (RuntimeError ''CDP error: '' (Some err))) \<longrightarrow>
        (\<exists>kvs v. Arrive (Decoded (JObj kvs)) \<in> set acts \<and>
           map_of kvs ''id'' = Some v \<and> int_key v = Inr (Some i) \<and>
           map_of kvs ''error'' = Some err)) \<and>
     (fst (send_command_issue method params (client (run dbg acts (start c)))) = Inr k \<longrightarrow>
        waiting (run dbg acts (start c)) k = None \<and>
        finished (run dbg acts (start c)) k = None) \<and>
     (loop_body dbg message c0 = (e, c1, out) \<and>
      pending_responses c1 j \<noteq> pending_responses c0 j \<longrightarrow>
        (\<exists>kvs v. message = Decoded (JObj kvs) \<and> map_of kvs ''id'' = Some v \<and>
           int_key v = Inr (Some j) \<and> pending_responses c0 j = Some Waiting \<and>
           pending_responses c1 j = Some (Resolved (JObj kvs))))"
proof -
  let ?w = "run dbg acts (start c)"
  have fresh: "waiting ?w k = None \<and> finished ?w k = None"
    if "fst (send_command_issue method params (client ?w)) = Inr k"
  proof -
    from that have "k = msg_id (client ?w) + 1"
      using issue_id [of "method" "params" "client ?w" k] by (metis prod.collapse)
    then have "\<not> k \<le> msg_id (client ?w)" by simp
    with run_ids_bounded [of dbg acts c k] show ?thesis by blast
  qed
  show ?thesis
    using run_returned [OF assms, of dbg acts i r] run_cdp_error [OF assms, of dbg acts i err]
      fresh loop_body_resolves_own_id [of dbg message c0 e c1 out j]
    by blast
qed

theorem responses_matched_by_id_witness:
  "pending_responses page_client = Map.empty \<and>
   finished (run False out_of_order (start page_client)) 1 = Some (Returned (JObj [])) \<and>
   finished (run False out_of_order (start page_client)) 2 =
     Some (Returned (JObj [(''value'', JInt 2)])) \<and>
   (\<exists>kvs v. Arrive (Decoded (JObj kvs)) \<in> set out_of_order \<and>
      map_of kvs ''id'' = Some v \<and> int_key v = Inr (Some 2) \<and>
      ''error'' \<notin> set (map fst kvs) \<and>
      JObj [(''value'', JInt 2)] = (case map_of kvs ''result'' of None \<Rightarrow> JObj [] | Some x \<Rightarrow> x))"
proof -
  have e: "pending_responses page_client = Map.empty"
    by (simp add: page_client_eq)
  have f: "finished (run False out_of_order (start page_client)) 2 =
     Some (Returned (JObj [(''value'', JInt 2)]))"
    by (simp add: out_of_order_finished)
  from responses_matched_by_id [OF e, of False out_of_order 2 "JObj [(''value'', JInt 2)]"] e f
  show ?thesis by (simp add: out_of_order_finished)
qed

end
